theory Spec2Isabelle
  imports Complex_Main "HOL-Library.AList"
begin

section \<open>PlotBuddy: a shallow embedding of \<open>slideagent_mcp/utils/plot_buddy.py\<close>\<close>

text \<open>
  The module is a helper class over matplotlib. Everything the class decides itself is
  modelled: which paths it builds and probes, which branch it takes, what it prints,
  what it raises, which elements of a figure it hides and restores. What the operating
  system and matplotlib decide is read from an environment record (does a path exist,
  what does a directory hold, does \<open>plt.style.use\<close>, \<open>imread\<close> or \<open>savefig\<close> raise).

  Python \<open>str\<close> values are modelled as \<open>string\<close>, the UTF-8 bytes of the text. The
  module splits paths at \<open>/\<close> and \<open>.\<close>, compares with ASCII literals and looks for
  \<open>source:\<close> in a lower-cased text; on these decisions bytes and code points agree.
  Keyword arguments that the module only passes on to matplotlib are left out.
\<close>

subsection \<open>Python string operations\<close>

definition startswith :: "string \<Rightarrow> string \<Rightarrow> bool" where
  \<comment> \<open>\<open>s.startswith(p)\<close>\<close>
  "startswith s p = (take (length p) s = p)"

definition endswith :: "string \<Rightarrow> string \<Rightarrow> bool" where
  \<comment> \<open>\<open>s.endswith(p)\<close>\<close>
  "endswith s p = (drop (length s - length p) s = p)"

definition lower_char :: "char \<Rightarrow> char" where
  \<comment> \<open>\<open>str.lower\<close> on one byte: the ASCII capitals move by 32, every other byte stays.\<close>
  "lower_char c =
     (let n = (of_char c :: nat) in if 65 \<le> n \<and> n \<le> 90 then char_of (n + 32) else c)"

definition str_lower :: "string \<Rightarrow> string" where
  "str_lower s = map lower_char s"

fun str_contains :: "string \<Rightarrow> string \<Rightarrow> bool" where
  \<comment> \<open>\<open>sub in s\<close>\<close>
  "str_contains sub [] = (sub = [])"
| "str_contains sub (c # cs) = (startswith (c # cs) sub \<or> str_contains sub cs)"

function str_remove_all :: "string \<Rightarrow> string \<Rightarrow> string" where
  \<comment> \<open>\<open>s.replace(old, "")\<close>: every non-overlapping occurrence of \<open>old\<close>, scanning from
      the left, is deleted; an empty \<open>old\<close> leaves \<open>s\<close> as it is.\<close>
  "str_remove_all old [] = []"
| "str_remove_all old (c # cs) =
     (if old \<noteq> [] \<and> startswith (c # cs) old
      then str_remove_all old (drop (length old) (c # cs))
      else c # str_remove_all old cs)"
  by pat_completeness auto
termination
  by (relation "measure (\<lambda>(old, s). length s)") auto

fun rfind :: "char \<Rightarrow> string \<Rightarrow> int" where
  \<comment> \<open>\<open>s.rfind(c)\<close>: the index of the last occurrence, or \<open>-1\<close>.\<close>
  "rfind c [] = -1"
| "rfind c (x # xs) =
     (let r = rfind c xs in if 0 \<le> r then r + 1 else if x = c then 0 else -1)"

fun split_sep :: "string \<Rightarrow> string list" where
  \<comment> \<open>\<open>s.split('/')\<close>\<close>
  "split_sep [] = [[]]"
| "split_sep (c # cs) =
     (if c = CHR ''/'' then [] # split_sep cs
      else (case split_sep cs of [] \<Rightarrow> [[c]] | x # xs \<Rightarrow> (c # x) # xs))"

fun str_join :: "string \<Rightarrow> string list \<Rightarrow> string" where
  \<comment> \<open>\<open>sep.join(parts)\<close>\<close>
  "str_join sep [] = []"
| "str_join sep [x] = x"
| "str_join sep (x # y # ys) = x @ sep @ str_join sep (y # ys)"

definition py_len :: "string \<Rightarrow> nat" where
  \<comment> \<open>\<open>len(s)\<close>: the code points of the text, which are its bytes other than the
      continuation bytes of UTF-8 (128 to 191)\<close>
  "py_len s = length (filter (\<lambda>c. (of_char c :: nat) < 128 \<or> 192 \<le> (of_char c :: nat)) s)"

definition rstrip_dots :: "string \<Rightarrow> string" where
  \<comment> \<open>\<open>s.rstrip('.')\<close>\<close>
  "rstrip_dots s = rev (dropWhile (\<lambda>c. c = CHR ''.'') (rev s))"

definition repr_keys :: "string list \<Rightarrow> string" where
  \<comment> \<open>\<open>str(list(d.keys()))\<close> for keys without quotes or escapes: each key in single
      quotes, separated by a comma and a space, in brackets\<close>
  "repr_keys ks = ''['' @ str_join '', '' (map (\<lambda>k. [CHR 0x27] @ k @ [CHR 0x27]) ks) @ '']''"

subsection \<open>\<open>os.path\<close> and \<open>pathlib\<close> on POSIX\<close>

definition os_path_join :: "string \<Rightarrow> string \<Rightarrow> string" where
  \<comment> \<open>\<open>posixpath.join(a, b)\<close>: an absolute \<open>b\<close> replaces \<open>a\<close>; otherwise one separator
      is put between them unless \<open>a\<close> is empty or already ends with one.\<close>
  "os_path_join a b =
     (if startswith b ''/'' then b
      else if a = [] \<or> endswith a ''/'' then a @ b
      else a @ ''/'' @ b)"

definition basename :: "string \<Rightarrow> string" where
  \<comment> \<open>\<open>posixpath.basename(p)\<close>: \<open>p[p.rfind('/') + 1:]\<close>\<close>
  "basename p = drop (nat (rfind CHR ''/'' p + 1)) p"

definition splitext :: "string \<Rightarrow> string \<times> string" where
  \<comment> \<open>\<open>posixpath.splitext(p)\<close>: split at the last dot of the last component, unless
      that component has only dots before it.\<close>
  "splitext p =
     (let sepIndex = rfind CHR ''/'' p; dotIndex = rfind CHR ''.'' p in
      if dotIndex > sepIndex \<and>
         list_ex (\<lambda>c. c \<noteq> CHR ''.'')
           (take (nat (dotIndex - (sepIndex + 1))) (drop (nat (sepIndex + 1)) p))
      then (take (nat dotIndex) p, drop (nat dotIndex) p)
      else (p, []))"

definition splitroot :: "string \<Rightarrow> string \<times> string" where
  \<comment> \<open>\<open>posixpath.splitroot\<close> without the (always empty) drive: exactly two leading
      slashes are a root of their own.\<close>
  "splitroot p =
     (if \<not> startswith p ''/'' then ([], p)
      else if take 1 (drop 1 p) \<noteq> ''/'' \<or> take 1 (drop 2 p) = ''/'' then (''/'', drop 1 p)
      else (''//'', drop 2 p))"

definition path_str :: "string \<Rightarrow> string" where
  \<comment> \<open>\<open>str(Path(p))\<close>: empty and \<open>.\<close> components are dropped, the empty path is \<open>.\<close>\<close>
  "path_str p =
     (let (root, rel) = splitroot p;
          tail = filter (\<lambda>x. x \<noteq> [] \<and> x \<noteq> ''.'') (split_sep rel) in
      if root = [] \<and> tail = [] then ''.'' else root @ str_join ''/'' tail)"

definition path_div :: "string \<Rightarrow> string \<Rightarrow> string" where
  \<comment> \<open>\<open>str(Path(a) / b)\<close>\<close>
  "path_div a b = path_str (os_path_join a b)"

definition stem :: "string \<Rightarrow> string" where
  \<comment> \<open>\<open>PurePath.stem\<close> of a file name: the name without its last suffix; a name whose
      only dot is first or last has no suffix.\<close>
  "stem name =
     (let i = rfind CHR ''.'' name in
      if 0 < i \<and> i < int (length name) - 1 then take (nat i) name else name)"

subsection \<open>Figures\<close>

text \<open>
  A figure is the list of its axes and the list of its figure-level texts. The objects
  of a figure are distinct, so the position in its list identifies an object
  (\<open>element\<close>), and the dictionary of \<open>_save_clean_version\<close>, keyed by object, is an
  association list keyed by \<open>element\<close>. Figure coordinates and tick positions are
  Python floats, written here as reals: no decision of the module depends on their
  arithmetic.
\<close>

datatype handle =
    Line2D string
  | Rectangle string
  | Artist string

text \<open>
  A legend handle: a line with its colour, a square patch with its face colour (as
  \<open>mpatches.Rectangle((0, 0), 1, 1, facecolor=color, edgecolor='none', alpha=0.8)\<close>
  builds it), or any other artist.
\<close>

record legend =
  lg_handles :: "handle list"
  lg_labels :: "string list"
  lg_ncol :: int
  lg_loc :: string
  lg_bbox_to_anchor :: "real \<times> real"
  lg_fontsize :: int

record axes =
  xticks :: "real list"
  yticks :: "real list"
  xlabel :: string
  ylabel :: string
  title :: string
  ax_visible :: bool
  legend_handles_labels :: "handle list \<times> string list"
  ax_legend :: "legend option"

record text_el =
  get_text :: string
  txt_x :: real
  txt_y :: real
  txt_ha :: string
  txt_fontsize :: int
  txt_color :: string
  txt_visible :: bool

record figure =
  fig_axes :: "axes list"
  fig_texts :: "text_el list"

datatype element = AxesRef nat | TextRef nat

subsection \<open>Exceptions and the environment\<close>

datatype pyexc =
    FileNotFoundError string
  | ValueError string
  | Exception string
  | BaseException string

text \<open>
  \<open>BaseException\<close> stands for the exceptions outside the \<open>Exception\<close> hierarchy
  (\<open>KeyboardInterrupt\<close>, \<open>SystemExit\<close>), which \<open>except Exception\<close> does not catch.
\<close>

fun is_Exception :: "pyexc \<Rightarrow> bool" where
  "is_Exception (BaseException m) = False"
| "is_Exception e = True"

fun exc_str :: "pyexc \<Rightarrow> string" where
  \<comment> \<open>\<open>str(e)\<close> of an exception raised with its message as only argument\<close>
  "exc_str (FileNotFoundError m) = m"
| "exc_str (ValueError m) = m"
| "exc_str (Exception m) = m"
| "exc_str (BaseException m) = m"

record env =
  exists_path :: "string \<Rightarrow> bool"
  scandir :: "string \<Rightarrow> string list"
  getcwd :: string
  resolve :: "string \<Rightarrow> string"
  base_dir :: string
  style_use :: "string \<Rightarrow> pyexc option"
  imread :: "string \<Rightarrow> pyexc option"
  logo_axes :: "string \<Rightarrow> real \<times> real \<times> real \<times> real \<Rightarrow> axes"
  rectangle_raises :: "string \<Rightarrow> pyexc option"
  savefig_raises :: "string \<Rightarrow> figure \<Rightarrow> pyexc option"
  default_filetype :: string

text \<open>
  \<^item> \<open>exists_path\<close>: \<open>os.path.exists\<close> and \<open>Path.exists\<close>;
  \<^item> \<open>scandir d\<close>: the names in directory \<open>d\<close> in the order the system lists them
    (empty when \<open>d\<close> is no directory);
  \<^item> \<open>getcwd\<close>: \<open>os.getcwd()\<close>; \<open>resolve\<close>: \<open>str(Path(p).resolve())\<close>;
  \<^item> \<open>base_dir\<close>: \<open>str(Path(__file__).parent.parent.parent)\<close>;
  \<^item> \<open>style_use p\<close> and \<open>imread p\<close>: what \<open>plt.style.use(p)\<close> and \<open>mpimg.imread(p)\<close>
    raise, \<open>None\<close> when they return;
  \<^item> \<open>logo_axes p rect\<close>: the axes that \<open>fig.add_axes(rect)\<close> gives after
    \<open>imshow\<close> of the image at \<open>p\<close> and \<open>axis('off')\<close>;
  \<^item> \<open>rectangle_raises color\<close>: what \<open>mpatches.Rectangle(..., facecolor=color, ...)\<close>
    raises (a \<open>ValueError\<close> for a colour matplotlib does not know), \<open>None\<close> when the
    patch is built;
  \<^item> \<open>savefig_raises p fig\<close>: what \<open>fig.savefig(p, ...)\<close> raises, \<open>None\<close> when the
    file is written;
  \<^item> \<open>default_filetype\<close>: matplotlib's \<open>savefig.format\<close> setting, the format of a
    file saved under a name without extension.
\<close>

subsection \<open>The class and its constructors\<close>

record PlotBuddy =
  style_dir_path :: string
  current_style :: "string option"
  icon_logo_path :: "string option"
  text_logo_path :: "string option"
  tight_layout_rect :: "real list"
  wide_figure :: "int \<times> int"
  boxy_figure :: "int \<times> int"
  title_font_size :: int
  subtitle_font_size :: int
  standard_font_size :: int
  title_y_position :: real
  subtitle_y_position :: real

definition truthy :: "string option \<Rightarrow> bool" where
  \<comment> \<open>the truth value of an argument that is \<open>None\<close> or a \<open>str\<close>\<close>
  "truthy s = (s \<noteq> None \<and> s \<noteq> Some [])"

definition init :: "env \<Rightarrow> string option \<Rightarrow> PlotBuddy" where
  \<comment> \<open>\<open>PlotBuddy.__init__(style_dir_path=None)\<close>\<close>
  "init e dir =
     (let d = (if truthy dir then the dir else getcwd e);
          theme_name = basename d;
          icon_logo = os_path_join d (theme_name @ ''_icon_logo.png'');
          text_logo = os_path_join d (theme_name @ ''_text_logo.png'') in
      \<lparr> style_dir_path = d,
        current_style = None,
        icon_logo_path = (if exists_path e icon_logo then Some icon_logo else None),
        text_logo_path = (if exists_path e text_logo then Some text_logo else None),
        tight_layout_rect = [0, 0.08, 1, 1],
        wide_figure = (16, 10),
        boxy_figure = (12, 9),
        title_font_size = 20,
        subtitle_font_size = 14,
        standard_font_size = 14,
        title_y_position = 1.12,
        subtitle_y_position = 1.06 \<rparr>)"

definition load_style_from_file ::
  "env \<Rightarrow> PlotBuddy \<Rightarrow> string \<Rightarrow> (pyexc + bool) \<times> PlotBuddy \<times> string list" where
  \<comment> \<open>Returns what the call raises or returns, the object after the call and the lines
      printed. An exception that \<open>except Exception\<close> does not catch leaves the method
      before the assignment to \<open>current_style\<close>.\<close>
  "load_style_from_file e self style_name =
     (let style_path = os_path_join (style_dir_path self) (style_name @ ''.mplstyle'') in
      if \<not> exists_path e style_path
      then (Inr False, self, [''Warning: Style file not found at '' @ style_path])
      else (case style_use e style_path of
              None \<Rightarrow> (Inr True, self\<lparr>current_style := Some style_name\<rparr>, [])
            | Some x \<Rightarrow>
                if is_Exception x
                then (Inr False, self,
                      [''Error loading style '' @ style_name @ '': '' @ exc_str x])
                else (Inl x, self, [])))"

definition user_theme_path :: "env \<Rightarrow> string \<Rightarrow> string" where
  \<comment> \<open>\<open>base_dir / "user_resources" / "themes" / theme_name\<close>\<close>
  "user_theme_path e theme_name =
     path_div (path_div (path_div (base_dir e) ''user_resources'') ''themes'') theme_name"

definition system_theme_path :: "env \<Rightarrow> string \<Rightarrow> string" where
  \<comment> \<open>\<open>base_dir / "slideagent_mcp" / "resources" / "themes" / "core" / theme_name\<close>\<close>
  "system_theme_path e theme_name =
     path_div (path_div (path_div (path_div (path_div (base_dir e)
       ''slideagent_mcp'') ''resources'') ''themes'') ''core'') theme_name"

definition theme_path :: "env \<Rightarrow> string \<Rightarrow> string option \<Rightarrow> string" where
  \<comment> \<open>the directory \<open>from_theme\<close> settles on before it builds the object\<close>
  "theme_path e theme_name themes_dir =
     (if truthy themes_dir then os_path_join (the themes_dir) theme_name
      else if exists_path e (user_theme_path e theme_name) then user_theme_path e theme_name
      else if exists_path e (system_theme_path e theme_name) then system_theme_path e theme_name
      else os_path_join ''themes'' theme_name)"

definition from_theme ::
  "env \<Rightarrow> string \<Rightarrow> string option \<Rightarrow> (pyexc + PlotBuddy) \<times> string list" where
  \<comment> \<open>\<open>PlotBuddy.from_theme(theme_name, themes_dir=None)\<close>: what the call raises or
      returns, and the lines printed\<close>
  "from_theme e theme_name themes_dir =
     (let buddy = init e (Some (theme_path e theme_name themes_dir));
          style_name = theme_name @ ''_style'' in
      case load_style_from_file e buddy style_name of
        (Inl x, buddy', out) \<Rightarrow> (Inl x, out)
      | (Inr True, buddy', out) \<Rightarrow> (Inr buddy', out)
      | (Inr False, buddy', out) \<Rightarrow>
          (Inr buddy',
           out @ [''Warning: Could not load style for theme '' @ [CHR 0x27] @ theme_name @
                  [CHR 0x27] @ '', using default styling'']))"

definition glob_theme_css :: "env \<Rightarrow> string \<Rightarrow> string list" where
  \<comment> \<open>the names that \<open>theme_dir.glob("*_theme.css")\<close> yields, in its order\<close>
  "glob_theme_css e theme_dir = filter (\<lambda>n. endswith n ''_theme.css'') (scandir e theme_dir)"

definition detect_theme_name :: "env \<Rightarrow> string \<Rightarrow> string option" where
  \<comment> \<open>the loop of \<open>from_project_config\<close> that stops at the first match\<close>
  "detect_theme_name e theme_dir =
     (case glob_theme_css e theme_dir of
        [] \<Rightarrow> None
      | css_file # _ \<Rightarrow> Some (str_remove_all ''_theme'' (stem css_file)))"

definition from_project_config :: "env \<Rightarrow> (pyexc + PlotBuddy) \<times> string list" where
  \<comment> \<open>\<open>PlotBuddy.from_project_config(config_path=None)\<close>; the argument is ignored by
      the source\<close>
  "from_project_config e =
     (let theme_dir = (if \<not> exists_path e ''theme'' then ''../theme'' else ''theme'') in
      if \<not> exists_path e theme_dir
      then (case from_theme e ''acme_corp'' None of
              (r, out) \<Rightarrow> (r, ''Warning: Theme folder not found, using default theme'' # out))
      else
        (let theme_name = detect_theme_name e theme_dir in
         if \<not> truthy theme_name
         then (case from_theme e ''acme_corp'' None of
                 (r, out) \<Rightarrow>
                   (r, (''Warning: No theme CSS file found in '' @ theme_dir) # out))
         else
           (let buddy = init e (Some (resolve e theme_dir));
                style_name = the theme_name @ ''_style'' in
            case load_style_from_file e buddy style_name of
              (Inl x, buddy', out) \<Rightarrow> (Inl x, out)
            | (Inr ok, buddy', out) \<Rightarrow> (Inr buddy', out))))"

subsection \<open>Logos, citations and legends\<close>

definition py_str :: "string option \<Rightarrow> string" where
  \<comment> \<open>how an f-string prints an argument that is \<open>None\<close> or a \<open>str\<close>\<close>
  "py_str s = (case s of None \<Rightarrow> ''None'' | Some v \<Rightarrow> v)"

definition logo_positions :: "real \<Rightarrow> real \<Rightarrow> real \<Rightarrow> (string \<times> real \<times> real) list" where
  "logo_positions width height margin =
     [(''bottom-right'', (1 - width - margin, margin)),
      (''bottom-left'', (margin, margin)),
      (''top-right'', (1 - width - margin, 1 - height - margin)),
      (''top-left'', (margin, 1 - height - margin))]"

definition invalid_position :: "string \<Rightarrow> string list \<Rightarrow> pyexc" where
  "invalid_position position keys =
     ValueError (''Invalid position: '' @ position @ ''. Must be one of '' @ repr_keys keys)"

definition add_logo ::
  "env \<Rightarrow> figure \<Rightarrow> string option \<Rightarrow> string \<Rightarrow> real \<Rightarrow> real \<Rightarrow> real \<Rightarrow> pyexc + figure" where
  \<comment> \<open>\<open>add_logo(fig, logo_path, position, width, height, margin)\<close>: the exception
      raised, or the figure with the logo axes added\<close>
  "add_logo e fig logo_path position width height margin =
     (if \<not> truthy logo_path \<or> \<not> exists_path e (the logo_path)
      then Inl (FileNotFoundError (''Logo file not found: '' @ py_str logo_path))
      else
        (case imread e (the logo_path) of
           Some x \<Rightarrow>
             if is_Exception x
             then Inl (Exception (''Could not load logo image: '' @ exc_str x))
             else Inl x
         | None \<Rightarrow>
             (let positions = logo_positions width height margin in
              case map_of positions position of
                None \<Rightarrow> Inl (invalid_position position (map fst positions))
              | Some (left, bottom) \<Rightarrow>
                  Inr (fig\<lparr>fig_axes := fig_axes fig @
                        [logo_axes e (the logo_path) (left, bottom, width, height)]\<rparr>))))"

definition citation_positions :: "(string \<times> real \<times> real \<times> string) list" where
  "citation_positions =
     [(''bottom-left'', (0.02, 0.01, ''left'')),
      (''bottom-right'', (0.98, 0.01, ''right''))]"

definition add_source_citation ::
  "PlotBuddy \<Rightarrow> figure \<Rightarrow> string option \<Rightarrow> string \<Rightarrow> int option \<Rightarrow> string \<Rightarrow> pyexc + figure" where
  \<comment> \<open>\<open>add_source_citation(fig, source, position, fontsize, color)\<close>\<close>
  "add_source_citation self fig source position fontsize color =
     (if \<not> truthy source then Inr fig
      else
        (let fontsize' = (case fontsize of None \<Rightarrow> standard_font_size self - 2 | Some n \<Rightarrow> n) in
         case map_of citation_positions position of
           None \<Rightarrow> Inl (invalid_position position (map fst citation_positions))
         | Some (x, y, ha) \<Rightarrow>
             Inr (fig\<lparr>fig_texts := fig_texts fig @
                   [\<lparr> get_text = ''Source: '' @ the source, txt_x = x, txt_y = y, txt_ha = ha,
                      txt_fontsize = fontsize', txt_color = color, txt_visible = True \<rparr>]\<rparr>)))"

fun manual_entries :: "env \<Rightarrow> string list list \<Rightarrow> pyexc + handle list \<times> string list" where
  \<comment> \<open>manual mode of \<open>create_legend\<close>: an entry is a tuple, here the list of its
      components. The loop stops at the first entry that is no pair, or whose colour
      makes \<open>mpatches.Rectangle\<close> raise.\<close>
  "manual_entries e [] = Inr ([], [])"
| "manual_entries e (entry # rest) =
     (case entry of
        [label, color] \<Rightarrow>
          (case rectangle_raises e color of
             Some x \<Rightarrow> Inl x
           | None \<Rightarrow>
               (case manual_entries e rest of
                  Inl x \<Rightarrow> Inl x
                | Inr (handles, labels) \<Rightarrow> Inr (Rectangle color # handles, label # labels)))
      | _ \<Rightarrow> Inl (ValueError ''legend_entries must be tuples of (label, color)''))"

fun square_handle :: "handle \<Rightarrow> handle" where
  \<comment> \<open>automatic mode: a line becomes a square patch of the line's colour, a colour
      that matplotlib accepted when the line was drawn\<close>
  "square_handle (Line2D color) = Rectangle color"
| "square_handle h = h"

definition auto_ncol :: "string list \<Rightarrow> int" where
  \<comment> \<open>the column count when \<open>ncol\<close> is \<open>None\<close>; called with at least one label. The
      source divides in floating point; for the lengths of labels the comparison with
      40 and 25 is the same as in exact arithmetic.\<close>
  "auto_ncol labels =
     (let n = int (length labels);
          avg_label_length =
            (if labels \<noteq> [] then real (sum_list (map py_len labels)) / real (length labels)
             else 0) in
      if avg_label_length > 40 then min 2 n
      else if avg_label_length > 25 then min 3 n
      else if n > 5 then min 4 n
      else n)"

definition legend_positions :: "(string \<times> string \<times> real \<times> real) list" where
  "legend_positions =
     [(''bottom'', (''upper center'', (0.5, -0.15))),
      (''right'', (''center left'', (1.02, 0.5))),
      (''top'', (''lower center'', (0.5, 1.02)))]"

definition legend_pos_config :: "string \<Rightarrow> string \<times> real \<times> real" where
  \<comment> \<open>\<open>positions.get(position, positions['bottom'])\<close>\<close>
  "legend_pos_config position =
     (case map_of legend_positions position of
        None \<Rightarrow> the (map_of legend_positions ''bottom'')
      | Some c \<Rightarrow> c)"

definition create_legend ::
  "env \<Rightarrow> PlotBuddy \<Rightarrow> axes \<Rightarrow> string list list option \<Rightarrow> int option \<Rightarrow> string \<Rightarrow>
   pyexc + legend option \<times> axes" where
  \<comment> \<open>\<open>create_legend(ax, legend_entries, ncol, position)\<close> without further keyword
      arguments: the exception raised, or the value returned (\<open>None\<close> or the legend)
      with the axes after the call\<close>
  "create_legend e self ax legend_entries ncol position =
     (case (case legend_entries of
              Some entries \<Rightarrow> manual_entries e entries
            | None \<Rightarrow>
                (case legend_handles_labels ax of
                   (handles, labels) \<Rightarrow> Inr (map square_handle handles, labels))) of
        Inl x \<Rightarrow> Inl x
      | Inr (handles, labels) \<Rightarrow>
          if handles = [] \<or> labels = [] then Inr (None, ax)
          else
            (let ncol' = (case ncol of None \<Rightarrow> auto_ncol labels | Some n \<Rightarrow> n);
                 pos_config = legend_pos_config position;
                 lg = \<lparr> lg_handles = handles, lg_labels = labels, lg_ncol = ncol',
                        lg_loc = fst pos_config, lg_bbox_to_anchor = snd pos_config,
                        lg_fontsize = standard_font_size self \<rparr> in
             Inr (Some lg, ax\<lparr>ax_legend := Some lg\<rparr>)))"

subsection \<open>Saving\<close>

type_synonym files = "(string \<times> figure) list"

text \<open>
  \<open>files\<close> is the record of the files written, in order: the name of the file and the
  figure as it was when \<open>savefig\<close> rendered it.
\<close>

definition written_file :: "env \<Rightarrow> string \<Rightarrow> string" where
  \<comment> \<open>the file \<open>savefig\<close> writes for a name: the name itself when it has an extension,
      else the name without trailing dots, a dot and the default format\<close>
  "written_file e path =
     (if drop 1 (snd (splitext path)) = [] then rstrip_dots path @ ''.'' @ default_filetype e
      else path)"

definition fig_savefig :: "env \<Rightarrow> figure \<Rightarrow> string \<Rightarrow> files \<Rightarrow> pyexc + files" where
  \<comment> \<open>\<open>fig.savefig(path, ...)\<close>\<close>
  "fig_savefig e fig path written =
     (case savefig_raises e path fig of
        Some x \<Rightarrow> Inl x
      | None \<Rightarrow> Inr (written @ [(written_file e path, fig)]))"

fun get_visible :: "figure \<Rightarrow> element \<Rightarrow> bool" where
  "get_visible fig (AxesRef i) = ax_visible (fig_axes fig ! i)"
| "get_visible fig (TextRef i) = txt_visible (fig_texts fig ! i)"

fun set_visible :: "element \<Rightarrow> bool \<Rightarrow> figure \<Rightarrow> figure" where
  "set_visible (AxesRef i) v fig =
     fig\<lparr>fig_axes := (fig_axes fig)[i := (fig_axes fig ! i)\<lparr>ax_visible := v\<rparr>]\<rparr>"
| "set_visible (TextRef i) v fig =
     fig\<lparr>fig_texts := (fig_texts fig)[i := (fig_texts fig ! i)\<lparr>txt_visible := v\<rparr>]\<rparr>"

definition looks_like_logo :: "axes \<Rightarrow> bool" where
  \<comment> \<open>the test of the first loop: no ticks, no axis labels, no title\<close>
  "looks_like_logo ax =
     (length (xticks ax) = 0 \<and> length (yticks ax) = 0 \<and>
      xlabel ax = [] \<and> ylabel ax = [] \<and> title ax = [])"

definition mentions_source :: "text_el \<Rightarrow> bool" where
  \<comment> \<open>the test of the second loop: \<open>'source:' in text.get_text().lower()\<close>\<close>
  "mentions_source t = str_contains ''source:'' (str_lower (get_text t))"

fun to_hide :: "figure \<Rightarrow> element \<Rightarrow> bool" where
  "to_hide fig (AxesRef i) = looks_like_logo (fig_axes fig ! i)"
| "to_hide fig (TextRef i) = mentions_source (fig_texts fig ! i)"

definition hide_step ::
  "element \<Rightarrow> figure \<times> (element \<times> bool) list \<Rightarrow> figure \<times> (element \<times> bool) list" where
  \<comment> \<open>one round of either loop: remember the visibility, then hide\<close>
  "hide_step el s =
     (case s of (fig, original_states) \<Rightarrow>
        if to_hide fig el
        then (set_visible el False fig, AList.update el (get_visible fig el) original_states)
        else (fig, original_states))"

definition hide_branding :: "figure \<Rightarrow> figure \<times> (element \<times> bool) list" where
  \<comment> \<open>the two loops of \<open>_save_clean_version\<close>, over \<open>fig.get_axes()\<close> and then over
      \<open>fig.texts\<close>\<close>
  "hide_branding fig =
     fold hide_step (map TextRef [0..<length (fig_texts fig)])
       (fold hide_step (map AxesRef [0..<length (fig_axes fig)]) (fig, []))"

definition restore_states :: "(element \<times> bool) list \<Rightarrow> figure \<Rightarrow> figure" where
  \<comment> \<open>the last loop, over \<open>original_states.items()\<close>\<close>
  "restore_states original_states fig =
     fold (\<lambda>(element, original_state). set_visible element original_state) original_states fig"

definition save_clean_version ::
  "env \<Rightarrow> figure \<Rightarrow> string \<Rightarrow> files \<Rightarrow> (pyexc + unit) \<times> figure \<times> files" where
  \<comment> \<open>\<open>_save_clean_version(fig, filepath)\<close>: what the call raises, the figure after the
      call and the files written\<close>
  "save_clean_version e fig filepath written =
     (case hide_branding fig of (hidden, original_states) \<Rightarrow>
        (case fig_savefig e hidden filepath written of
           Inl x \<Rightarrow> (Inl x, hidden, written)
         | Inr written' \<Rightarrow> (Inr (), restore_states original_states hidden, written')))"

datatype saved = BrandedClean string string | Clean string

definition save ::
  "env \<Rightarrow> string \<Rightarrow> bool \<Rightarrow> figure \<Rightarrow> files \<Rightarrow> (pyexc + saved) \<times> figure \<times> files" where
  \<comment> \<open>\<open>save(filepath, branded)\<close> without further keyword arguments, on the current
      figure \<open>plt.gcf()\<close>: what the call raises or returns, the figure after the call and
      the files written\<close>
  "save e filepath branded fig written =
     (case splitext filepath of (base_path, ext) \<Rightarrow>
        if branded
        then
          (let branded_path = base_path @ ''_branded'' @ ext in
           case fig_savefig e fig branded_path written of
             Inl x \<Rightarrow> (Inl x, fig, written)
           | Inr written' \<Rightarrow>
               (let clean_path = base_path @ ''_clean'' @ ext in
                case save_clean_version e fig clean_path written' of
                  (Inl x, fig', written'') \<Rightarrow> (Inl x, fig', written'')
                | (Inr u, fig', written'') \<Rightarrow>
                    (Inr (BrandedClean branded_path clean_path), fig', written'')))
        else
          (let clean_path = base_path @ ''_clean'' @ ext in
           case save_clean_version e fig clean_path written of
             (Inl x, fig', written') \<Rightarrow> (Inl x, fig', written')
           | (Inr u, fig', written') \<Rightarrow> (Inr (Clean clean_path), fig', written')))"

subsection \<open>Notions used in the proofs\<close>

text \<open>
  An element is valid in a figure when its position lies within the figure's list;
  \<open>hide_all\<close> hides a list of elements; \<open>branding\<close> lists the elements of a figure that
  the two loops of \<open>_save_clean_version\<close> select, in their order.
\<close>

fun valid :: "figure \<Rightarrow> element \<Rightarrow> bool" where
  "valid fig (AxesRef i) = (i < length (fig_axes fig))"
| "valid fig (TextRef i) = (i < length (fig_texts fig))"

definition hide_all :: "element list \<Rightarrow> figure \<Rightarrow> figure" where
  "hide_all els fig = fold (\<lambda>el. set_visible el False) els fig"

definition branding :: "figure \<Rightarrow> element list" where
  "branding fig =
     filter (to_hide fig)
       (map AxesRef [0..<length (fig_axes fig)] @ map TextRef [0..<length (fig_texts fig)])"

subsection \<open>An example installation\<close>

text \<open>
  A concrete environment on which the theorems below are instantiated: one bundled
  theme with a style file and an icon logo, one user-level theme, a project \<open>theme\<close>
  folder, and a folder \<open>broken\<close> whose style files and image make matplotlib raise.
  The axes that show a logo report the tick positions of the image, as axes with an image
  do in matplotlib also after \<open>axis('off')\<close>.
\<close>

definition logo_ax :: axes where
  \<comment> \<open>axes that show a logo of 300 by 150 pixels\<close>
  "logo_ax =
     \<lparr> xticks = [0, 100, 200, 300], yticks = [0, 50, 100, 150], xlabel = [], ylabel = [],
       title = [], ax_visible = True, legend_handles_labels = ([], []), ax_legend = None \<rparr>"

definition demo_env :: env where
  "demo_env =
     \<lparr> exists_path = (\<lambda>p. p \<in> set
          [''theme'', ''/repo/user_resources/themes/house'',
           ''/repo/slideagent_mcp/resources/themes/core/acme_corp'',
           ''/repo/slideagent_mcp/resources/themes/core/acme_corp/acme_corp_style.mplstyle'',
           ''/repo/slideagent_mcp/resources/themes/core/acme_corp/acme_corp_icon_logo.png'',
           ''broken'', ''broken/bad.mplstyle'', ''broken/stop.mplstyle'',
           ''broken/noise.png'']),
       scandir = (\<lambda>d. if d = ''theme'' then [''base.css'', ''my_theme_park_theme.css''] else []),
       getcwd = ''/work/deck/plots'',
       resolve = (\<lambda>p. if p = ''theme'' then ''/work/deck/theme'' else p),
       base_dir = ''/repo'',
       style_use =
         (\<lambda>p. if p = ''broken/bad.mplstyle'' then Some (Exception ''bad key'')
              else if p = ''broken/stop.mplstyle'' then Some (BaseException ''KeyboardInterrupt'')
              else None),
       imread =
         (\<lambda>p. if p = ''broken/noise.png'' then Some (Exception ''not a PNG file'') else None),
       logo_axes = (\<lambda>p rect. logo_ax),
       rectangle_raises =
         (\<lambda>color. if color = ''notacolor''
                  then Some (ValueError (''Invalid RGBA argument: '' @ [CHR 0x27] @ color @ [CHR 0x27]))
                  else None),
       savefig_raises =
         (\<lambda>p fig. if p = ''/readonly/chart_clean.png'' then Some (Exception ''Permission denied'')
                  else None),
       default_filetype = ''png'' \<rparr>"

definition acme_dir :: string where
  "acme_dir = ''/repo/slideagent_mcp/resources/themes/core/acme_corp''"

definition chart_ax :: axes where
  "chart_ax =
     \<lparr> xticks = [0, 1, 2], yticks = [0, 50, 100], xlabel = ''Quarter'', ylabel = ''Revenue'',
       title = [], ax_visible = True,
       legend_handles_labels = ([Line2D ''#1f77b4'', Artist ''bars''], [''Plan'', ''Actual'']),
       ax_legend = None \<rparr>"

definition bare_ax :: axes where
  \<comment> \<open>axes with nothing drawn that carries a label\<close>
  "bare_ax = chart_ax\<lparr>legend_handles_labels := ([], [])\<rparr>"

definition inset_ax :: axes where
  \<comment> \<open>an inset whose ticks the caller has removed\<close>
  "inset_ax =
     \<lparr> xticks = [], yticks = [], xlabel = [], ylabel = [], title = [], ax_visible = True,
       legend_handles_labels = ([], []), ax_legend = None \<rparr>"

definition caption :: "string \<Rightarrow> bool \<Rightarrow> text_el" where
  "caption s v =
     \<lparr> get_text = s, txt_x = 0.02, txt_y = 0.01, txt_ha = ''left'', txt_fontsize = 12,
       txt_color = ''black'', txt_visible = v \<rparr>"

definition demo_fig :: figure where
  \<comment> \<open>a chart with a logo inset, a source citation, a footnote, and a draft remark that
      the caller has already hidden\<close>
  "demo_fig =
     \<lparr> fig_axes = [chart_ax, inset_ax],
       fig_texts = [caption ''Source: ACME annual report'' True, caption ''Preliminary figures'' True,
                    caption ''Draft, data source: internal'' False] \<rparr>"

definition chart_fig :: figure where
  \<comment> \<open>a chart with its source citation, before a logo is added\<close>
  "chart_fig =
     \<lparr> fig_axes = [chart_ax], fig_texts = [caption ''Source: ACME annual report'' True] \<rparr>"

definition logo_fig :: figure where
  \<comment> \<open>\<open>chart_fig\<close> after \<open>add_logo\<close>\<close>
  "logo_fig = chart_fig\<lparr>fig_axes := [chart_ax, logo_ax]\<rparr>"

definition logo_clean_fig :: figure where
  \<comment> \<open>\<open>logo_fig\<close> with the source citation hidden\<close>
  "logo_clean_fig =
     \<lparr> fig_axes = [chart_ax, logo_ax],
       fig_texts = [caption ''Source: ACME annual report'' False] \<rparr>"

definition demo_clean_fig :: figure where
  \<comment> \<open>\<open>demo_fig\<close> with the inset and the two texts that mention a source hidden\<close>
  "demo_clean_fig =
     \<lparr> fig_axes = [chart_ax, inset_ax\<lparr>ax_visible := False\<rparr>],
       fig_texts = [caption ''Source: ACME annual report'' False,
                    caption ''Preliminary figures'' True,
                    caption ''Draft, data source: internal'' False] \<rparr>"

section \<open>Properties\<close>

subsection \<open>Loading a style file\<close>

lemma load_style_from_file_result:
  "fst (load_style_from_file e self n) =
     (let p = os_path_join (style_dir_path self) (n @ ''.mplstyle'') in
      if \<not> exists_path e p then Inr False
      else case style_use e p of
             None \<Rightarrow> Inr True
           | Some x \<Rightarrow> if is_Exception x then Inr False else Inl x)"
  by (simp add: load_style_from_file_def Let_def split: option.splits)

lemma load_style_from_file_object:
  "fst (snd (load_style_from_file e self n)) =
     (if fst (load_style_from_file e self n) = Inr True
      then self\<lparr>current_style := Some n\<rparr> else self)"
  by (simp add: load_style_from_file_def Let_def split: option.splits)

lemma demo_broken_dir: "style_dir_path (init demo_env (Some ''broken'')) = ''broken''"
  by (simp add: init_def truthy_def Let_def)

lemma demo_acme_dir: "style_dir_path (init demo_env (Some acme_dir)) = acme_dir"
  by (simp add: init_def truthy_def Let_def acme_dir_def)

lemma demo_bad_path: "os_path_join ''broken'' ''bad.mplstyle'' = ''broken/bad.mplstyle''"
  by (simp add: os_path_join_def startswith_def endswith_def)

lemma demo_stop_path:
  "os_path_join ''broken'' ''stop.mplstyle'' = ''broken/stop.mplstyle''"
  by (simp add: os_path_join_def startswith_def endswith_def)

lemma demo_gone_path:
  "os_path_join ''broken'' ''gone.mplstyle'' = ''broken/gone.mplstyle''"
  by (simp add: os_path_join_def startswith_def endswith_def)

lemma demo_acme_path:
  "os_path_join acme_dir ''acme_corp_style.mplstyle'' =
     ''/repo/slideagent_mcp/resources/themes/core/acme_corp/acme_corp_style.mplstyle''"
  by (simp add: os_path_join_def startswith_def endswith_def acme_dir_def)

text \<open>
  C1 (as amended). \<open>load_style_from_file\<close> returns \<open>False\<close> without raising when the
  style file is missing, and also when the file is present and \<open>plt.style.use\<close> raises
  an exception of class \<open>Exception\<close>: the handler prints the error and returns
  \<open>False\<close>. It returns \<open>True\<close> when \<open>plt.style.use\<close> returns. The call raises only
  what \<open>except Exception\<close> does not catch.
\<close>

theorem load_style_from_file_never_raises_Exception:
  assumes "p = os_path_join (style_dir_path self) (n @ ''.mplstyle'')"
  shows "(\<not> exists_path e p \<longrightarrow> fst (load_style_from_file e self n) = Inr False)
       \<and> (exists_path e p \<and> style_use e p = None \<longrightarrow>
            fst (load_style_from_file e self n) = Inr True)
       \<and> (\<forall>x. exists_path e p \<and> style_use e p = Some x \<and> is_Exception x \<longrightarrow>
            fst (load_style_from_file e self n) = Inr False)
       \<and> (\<forall>x. fst (load_style_from_file e self n) = Inl x \<longrightarrow>
            exists_path e p \<and> style_use e p = Some x \<and> \<not> is_Exception x)"
  using assms
  by (auto simp: load_style_from_file_result Let_def split: option.splits if_splits)

theorem load_style_from_file_never_raises_Exception_witness:
  "\<not> exists_path demo_env ''broken/gone.mplstyle''
   \<and> fst (load_style_from_file demo_env (init demo_env (Some ''broken'')) ''gone'') = Inr False
   \<and> exists_path demo_env ''broken/bad.mplstyle''
   \<and> style_use demo_env ''broken/bad.mplstyle'' = Some (Exception ''bad key'')
   \<and> is_Exception (Exception ''bad key'')
   \<and> fst (load_style_from_file demo_env (init demo_env (Some ''broken'')) ''bad'') = Inr False
   \<and> exists_path demo_env (acme_dir @ ''/acme_corp_style.mplstyle'')
   \<and> style_use demo_env (acme_dir @ ''/acme_corp_style.mplstyle'') = None
   \<and> fst (load_style_from_file demo_env (init demo_env (Some acme_dir)) ''acme_corp_style'') =
       Inr True
   \<and> fst (load_style_from_file demo_env (init demo_env (Some ''broken'')) ''stop'') =
       Inl (BaseException ''KeyboardInterrupt'')
   \<and> style_use demo_env ''broken/stop.mplstyle'' = Some (BaseException ''KeyboardInterrupt'')
   \<and> \<not> is_Exception (BaseException ''KeyboardInterrupt'')"
proof -
  have gone: "''broken/gone.mplstyle'' =
      os_path_join (style_dir_path (init demo_env (Some ''broken''))) (''gone'' @ ''.mplstyle'')"
    by (simp add: demo_broken_dir demo_gone_path)
  have bad: "''broken/bad.mplstyle'' =
      os_path_join (style_dir_path (init demo_env (Some ''broken''))) (''bad'' @ ''.mplstyle'')"
    by (simp add: demo_broken_dir demo_bad_path)
  have stop: "''broken/stop.mplstyle'' =
      os_path_join (style_dir_path (init demo_env (Some ''broken''))) (''stop'' @ ''.mplstyle'')"
    by (simp add: demo_broken_dir demo_stop_path)
  have acme: "acme_dir @ ''/acme_corp_style.mplstyle'' =
      os_path_join (style_dir_path (init demo_env (Some acme_dir)))
        (''acme_corp_style'' @ ''.mplstyle'')"
    by (simp add: demo_acme_dir demo_acme_path) (simp add: acme_dir_def)
  have h1: "\<not> exists_path demo_env ''broken/gone.mplstyle''"
    by (simp add: demo_env_def)
  have h2: "exists_path demo_env ''broken/bad.mplstyle''
      \<and> style_use demo_env ''broken/bad.mplstyle'' = Some (Exception ''bad key'')
      \<and> is_Exception (Exception ''bad key'')"
    by (simp add: demo_env_def)
  have h3: "exists_path demo_env (acme_dir @ ''/acme_corp_style.mplstyle'')
      \<and> style_use demo_env (acme_dir @ ''/acme_corp_style.mplstyle'') = None"
    by (simp add: demo_env_def acme_dir_def)
  have h4: "fst (load_style_from_file demo_env (init demo_env (Some ''broken'')) ''stop'') =
      Inl (BaseException ''KeyboardInterrupt'')"
    by (simp add: load_style_from_file_result demo_broken_dir demo_stop_path Let_def)
       (simp add: demo_env_def)
  from load_style_from_file_never_raises_Exception [OF gone, of demo_env]
       load_style_from_file_never_raises_Exception [OF bad, of demo_env]
       load_style_from_file_never_raises_Exception [OF acme, of demo_env]
       load_style_from_file_never_raises_Exception [OF stop, of demo_env] h1 h2 h3 h4
  show ?thesis by blast
qed

text \<open>
  C1 as stated fails: the style file \<open>broken/bad.mplstyle\<close> is present, the
  style-parsing step raises for it, and the call returns \<open>False\<close> instead of raising.
\<close>

theorem load_style_from_file_malformed_counterexample:
  "exists_path demo_env ''broken/bad.mplstyle''
   \<and> style_use demo_env ''broken/bad.mplstyle'' = Some (Exception ''bad key'')
   \<and> load_style_from_file demo_env (init demo_env (Some ''broken'')) ''bad'' =
       (Inr False, init demo_env (Some ''broken''), [''Error loading style bad: bad key''])"
proof -
  have "exists_path demo_env ''broken/bad.mplstyle''
      \<and> style_use demo_env ''broken/bad.mplstyle'' = Some (Exception ''bad key'')"
    by (simp add: demo_env_def)
  then show ?thesis
    by (simp add: load_style_from_file_def demo_broken_dir demo_bad_path Let_def)
qed

text \<open>
  C4. A call of \<open>load_style_from_file\<close> changes \<open>current_style\<close> only when it returns
  \<open>True\<close>, and then to the name loaded; in every other case (missing file, an error
  of \<open>plt.style.use\<close>, an exception passing through) the object is as before. A style
  name that is set is never unset.
\<close>

theorem load_style_from_file_current_style:
  assumes "load_style_from_file e self n = (r, self', out)"
  shows "(r = Inr True \<longrightarrow> current_style self' = Some n)
       \<and> (r \<noteq> Inr True \<longrightarrow> current_style self' = current_style self)
       \<and> (current_style self' \<noteq> current_style self \<longrightarrow> r = Inr True)
       \<and> (current_style self \<noteq> None \<longrightarrow> current_style self' \<noteq> None)
       \<and> style_dir_path self' = style_dir_path self"
proof -
  have r: "r = fst (load_style_from_file e self n)"
    and s: "self' = fst (snd (load_style_from_file e self n))"
    using assms by simp_all
  show ?thesis
    unfolding s load_style_from_file_object r [symmetric] by auto
qed

theorem load_style_from_file_current_style_witness:
  "load_style_from_file demo_env (init demo_env (Some acme_dir)) ''acme_corp_style'' =
     (Inr True, (init demo_env (Some acme_dir))\<lparr>current_style := Some ''acme_corp_style''\<rparr>, [])
   \<and> load_style_from_file demo_env
        ((init demo_env (Some ''broken''))\<lparr>current_style := Some ''acme_corp_style''\<rparr>) ''bad'' =
     (Inr False, (init demo_env (Some ''broken''))\<lparr>current_style := Some ''acme_corp_style''\<rparr>,
      [''Error loading style bad: bad key''])
   \<and> current_style ((init demo_env (Some acme_dir))\<lparr>current_style := Some ''acme_corp_style''\<rparr>) =
       Some ''acme_corp_style''
   \<and> current_style ((init demo_env (Some ''broken''))\<lparr>current_style := Some ''acme_corp_style''\<rparr>) \<noteq>
       None"
proof -
  have a: "load_style_from_file demo_env (init demo_env (Some acme_dir)) ''acme_corp_style'' =
     (Inr True, (init demo_env (Some acme_dir))\<lparr>current_style := Some ''acme_corp_style''\<rparr>, [])"
    by (simp add: load_style_from_file_def demo_acme_dir demo_acme_path Let_def)
       (simp add: demo_env_def)
  have b: "load_style_from_file demo_env
        ((init demo_env (Some ''broken''))\<lparr>current_style := Some ''acme_corp_style''\<rparr>) ''bad'' =
     (Inr False, (init demo_env (Some ''broken''))\<lparr>current_style := Some ''acme_corp_style''\<rparr>,
      [''Error loading style bad: bad key''])"
    by (simp add: load_style_from_file_def demo_broken_dir demo_bad_path Let_def)
       (simp add: demo_env_def)
  from load_style_from_file_current_style [OF a] load_style_from_file_current_style [OF b] a b
  show ?thesis by simp
qed

subsection \<open>Paths\<close>

lemma rfind_ge: "- 1 \<le> rfind c xs"
  by (induction xs) (auto simp: Let_def)

lemma rfind_lt: "rfind c xs < int (length xs)"
  by (induction xs) (auto simp: Let_def)

lemma rfind_notin: "c \<notin> set xs \<Longrightarrow> rfind c xs = - 1"
  by (induction xs) (auto simp: Let_def)

lemma rfind_last: "c \<notin> set ys \<Longrightarrow> rfind c (xs @ c # ys) = int (length xs)"
  by (induction xs) (auto simp: Let_def rfind_notin)

lemma rfind_append_notin: "c \<notin> set ys \<Longrightarrow> rfind c (xs @ ys) = rfind c xs"
  by (induction xs) (auto simp: Let_def rfind_notin)

lemma basename_component:
  "CHR ''/'' \<notin> set name \<Longrightarrow> basename (parent @ CHR ''/'' # name) = name"
  by (simp add: basename_def rfind_last nat_add_distrib)

lemma basename_plain: "CHR ''/'' \<notin> set name \<Longrightarrow> basename name = name"
  by (simp add: basename_def rfind_notin)

lemma os_path_join_component:
  assumes "CHR ''/'' \<notin> set name" and "name \<noteq> []"
  shows "os_path_join (parent @ CHR ''/'' # name) (name @ suffix) =
           parent @ CHR ''/'' # name @ CHR ''/'' # name @ suffix"
proof -
  obtain c cs where n: "name = c # cs" using assms(2) by (cases name) auto
  have c: "c \<noteq> CHR ''/''" using assms(1) n by auto
  obtain ds d where m: "name = ds @ [d]" using assms(2) by (cases name rule: rev_cases) auto
  have d: "d \<noteq> CHR ''/''" using assms(1) m by auto
  have e: "\<not> endswith (parent @ CHR ''/'' # name) ''/''"
    using d by (simp add: endswith_def m)
  have s: "\<not> startswith (name @ suffix) ''/''"
    using c by (simp add: startswith_def n)
  show ?thesis
    using e s by (simp add: os_path_join_def)
qed

lemma str_join_nonempty:
  "parts \<noteq> [] \<Longrightarrow> [] \<notin> set parts \<Longrightarrow> str_join sep parts \<noteq> []"
  by (induction sep parts rule: str_join.induct) auto

lemma path_str_nonempty: "path_str p \<noteq> []"
proof -
  obtain root rel where r: "splitroot p = (root, rel)" by (cases "splitroot p")
  let ?tail = "filter (\<lambda>x. x \<noteq> [] \<and> x \<noteq> ''.'') (split_sep rel)"
  have "?tail \<noteq> [] \<Longrightarrow> str_join ''/'' ?tail \<noteq> []"
    by (rule str_join_nonempty) auto
  then show ?thesis
    by (auto simp: path_str_def r Let_def)
qed

lemma os_path_join_nonempty: "a \<noteq> [] \<Longrightarrow> os_path_join a b \<noteq> []"
  by (auto simp: os_path_join_def startswith_def)

lemma theme_path_nonempty: "theme_path e theme_name themes_dir \<noteq> []"
  by (auto simp: theme_path_def user_theme_path_def system_theme_path_def path_div_def
      path_str_nonempty os_path_join_nonempty truthy_def)

subsection \<open>Construction\<close>

lemma demo_acme_icon:
  "os_path_join acme_dir (basename acme_dir @ ''_icon_logo.png'') =
     ''/repo/slideagent_mcp/resources/themes/core/acme_corp/acme_corp_icon_logo.png''"
  by (simp add: acme_dir_def basename_def os_path_join_def startswith_def endswith_def)

lemma demo_acme_text:
  "os_path_join acme_dir (basename acme_dir @ ''_text_logo.png'') =
     ''/repo/slideagent_mcp/resources/themes/core/acme_corp/acme_corp_text_logo.png''"
  by (simp add: acme_dir_def basename_def os_path_join_def startswith_def endswith_def)

text \<open>
  C5. The constructor takes the directory given, or the current working directory when
  none (or an empty one) is given. With \<open>d\<close> that directory, \<open>icon_logo_path\<close> is the
  path of \<open>basename(d)_icon_logo.png\<close> inside \<open>d\<close> exactly when that path exists, and is
  unset otherwise; likewise \<open>text_logo_path\<close> for \<open>basename(d)_text_logo.png\<close>. The
  constructor has no raising path. For a directory \<open>parent/name\<close> the two files are
  \<open>parent/name/name_icon_logo.png\<close> and \<open>parent/name/name_text_logo.png\<close>.
\<close>

theorem init_logo_paths:
  assumes "d = (if truthy dir then the dir else getcwd e)"
  shows "style_dir_path (init e dir) = d
       \<and> current_style (init e dir) = None
       \<and> icon_logo_path (init e dir) =
           (if exists_path e (os_path_join d (basename d @ ''_icon_logo.png''))
            then Some (os_path_join d (basename d @ ''_icon_logo.png'')) else None)
       \<and> text_logo_path (init e dir) =
           (if exists_path e (os_path_join d (basename d @ ''_text_logo.png''))
            then Some (os_path_join d (basename d @ ''_text_logo.png'')) else None)
       \<and> (\<forall>parent name suffix. d = parent @ ''/'' @ name \<and> name \<noteq> [] \<and> CHR ''/'' \<notin> set name \<longrightarrow>
            os_path_join d (basename d @ suffix) = d @ ''/'' @ name @ suffix)"
proof (intro conjI allI impI)
  fix parent name suffix
  assume "d = parent @ ''/'' @ name \<and> name \<noteq> [] \<and> CHR ''/'' \<notin> set name"
  then show "os_path_join d (basename d @ suffix) = d @ ''/'' @ name @ suffix"
    by (simp add: basename_component os_path_join_component)
qed (simp_all add: assms init_def Let_def)

theorem init_logo_paths_witness:
  "exists_path demo_env
     ''/repo/slideagent_mcp/resources/themes/core/acme_corp/acme_corp_icon_logo.png''
   \<and> icon_logo_path (init demo_env (Some acme_dir)) =
       Some ''/repo/slideagent_mcp/resources/themes/core/acme_corp/acme_corp_icon_logo.png''
   \<and> \<not> exists_path demo_env
       ''/repo/slideagent_mcp/resources/themes/core/acme_corp/acme_corp_text_logo.png''
   \<and> text_logo_path (init demo_env (Some acme_dir)) = None
   \<and> style_dir_path (init demo_env None) = ''/work/deck/plots''
   \<and> acme_dir = ''/repo/slideagent_mcp/resources/themes/core'' @ ''/'' @ ''acme_corp''
   \<and> CHR ''/'' \<notin> set ''acme_corp''
   \<and> os_path_join acme_dir (basename acme_dir @ ''_icon_logo.png'') =
       acme_dir @ ''/'' @ ''acme_corp'' @ ''_icon_logo.png''"
proof -
  have d: "acme_dir = (if truthy (Some acme_dir) then the (Some acme_dir) else getcwd demo_env)"
    by (simp add: truthy_def acme_dir_def)
  have c: "''/work/deck/plots'' = (if truthy None then the None else getcwd demo_env)"
    by (simp add: truthy_def demo_env_def)
  have x: "exists_path demo_env
       ''/repo/slideagent_mcp/resources/themes/core/acme_corp/acme_corp_icon_logo.png''
     \<and> \<not> exists_path demo_env
       ''/repo/slideagent_mcp/resources/themes/core/acme_corp/acme_corp_text_logo.png''"
    by (simp add: demo_env_def)
  have n: "acme_dir = ''/repo/slideagent_mcp/resources/themes/core'' @ ''/'' @ ''acme_corp''
      \<and> ''acme_corp'' \<noteq> [] \<and> CHR ''/'' \<notin> set ''acme_corp''"
    by (simp add: acme_dir_def)
  from init_logo_paths [OF d] n
  have j: "os_path_join acme_dir (basename acme_dir @ ''_icon_logo.png'') =
       acme_dir @ ''/'' @ ''acme_corp'' @ ''_icon_logo.png''"
    by blast
  from init_logo_paths [OF d] init_logo_paths [OF c] x n j
  show ?thesis
    by (simp add: demo_acme_icon demo_acme_text)
qed

subsection \<open>Resolving a theme by name\<close>

lemma load_style_keeps_dir:
  "style_dir_path (fst (snd (load_style_from_file e self n))) = style_dir_path self"
  by (simp add: load_style_from_file_def Let_def split: option.splits)

lemma init_dir: "style_dir_path (init e (Some d)) = (if d = [] then getcwd e else d)"
  by (simp add: init_def truthy_def Let_def)

lemma load_style_raises:
  "fst (load_style_from_file e self n) = Inl x \<Longrightarrow> \<not> is_Exception x"
  by (auto simp: load_style_from_file_def Let_def split: option.splits if_splits)

lemma from_theme_buddy:
  "fst (from_theme e theme_name themes_dir) = Inr buddy \<Longrightarrow>
     buddy = fst (snd (load_style_from_file e (init e (Some (theme_path e theme_name themes_dir)))
                         (theme_name @ ''_style'')))"
  unfolding from_theme_def Let_def
  by (cases "load_style_from_file e (init e (Some (theme_path e theme_name themes_dir)))
                         (theme_name @ ''_style'')")
     (auto split: sum.splits bool.splits)

lemma from_theme_raises:
  "fst (from_theme e theme_name themes_dir) = Inl x \<Longrightarrow>
     fst (load_style_from_file e (init e (Some (theme_path e theme_name themes_dir)))
                         (theme_name @ ''_style'')) = Inl x"
  unfolding from_theme_def Let_def
  by (cases "load_style_from_file e (init e (Some (theme_path e theme_name themes_dir)))
                         (theme_name @ ''_style'')")
     (auto split: sum.splits bool.splits)

lemma demo_user:
  "user_theme_path demo_env ''acme_corp'' = ''/repo/user_resources/themes/acme_corp''"
  by (simp add: user_theme_path_def path_div_def path_str_def os_path_join_def startswith_def
      endswith_def splitroot_def demo_env_def)

lemma demo_system: "system_theme_path demo_env ''acme_corp'' = acme_dir"
  by (simp add: system_theme_path_def path_div_def path_str_def os_path_join_def startswith_def
      endswith_def splitroot_def demo_env_def acme_dir_def)

text \<open>
  C6. With an explicit themes directory, \<open>from_theme\<close> uses the theme's subdirectory of
  it, whatever exists elsewhere. Without one it uses the user-level theme directory if
  that exists, else the bundled one if that exists, else the legacy relative path
  \<open>themes/<name>\<close> (taken without a test). The object returned is rooted at the
  directory chosen, and the call raises nothing of class \<open>Exception\<close>.
\<close>

theorem from_theme_directory:
  "(truthy themes_dir \<longrightarrow>
      theme_path e theme_name themes_dir = os_path_join (the themes_dir) theme_name)
   \<and> (\<not> truthy themes_dir \<and> exists_path e (user_theme_path e theme_name) \<longrightarrow>
      theme_path e theme_name themes_dir = user_theme_path e theme_name)
   \<and> (\<not> truthy themes_dir \<and> \<not> exists_path e (user_theme_path e theme_name)
        \<and> exists_path e (system_theme_path e theme_name) \<longrightarrow>
      theme_path e theme_name themes_dir = system_theme_path e theme_name)
   \<and> (\<not> truthy themes_dir \<and> \<not> exists_path e (user_theme_path e theme_name)
        \<and> \<not> exists_path e (system_theme_path e theme_name) \<longrightarrow>
      theme_path e theme_name themes_dir = os_path_join ''themes'' theme_name)
   \<and> (\<forall>buddy. fst (from_theme e theme_name themes_dir) = Inr buddy \<longrightarrow>
        style_dir_path buddy = theme_path e theme_name themes_dir)
   \<and> (\<forall>x. fst (from_theme e theme_name themes_dir) = Inl x \<longrightarrow> \<not> is_Exception x)"
proof (intro conjI allI impI)
  fix buddy
  assume a: "fst (from_theme e theme_name themes_dir) = Inr buddy"
  from from_theme_buddy [OF a]
  show "style_dir_path buddy = theme_path e theme_name themes_dir"
    by (simp add: load_style_keeps_dir init_dir theme_path_nonempty)
next
  fix x
  assume "fst (from_theme e theme_name themes_dir) = Inl x"
  then show "\<not> is_Exception x"
    by (blast dest: from_theme_raises load_style_raises)
qed (simp_all add: theme_path_def)

theorem from_theme_directory_witness:
  "\<not> truthy None
   \<and> \<not> exists_path demo_env (user_theme_path demo_env ''acme_corp'')
   \<and> exists_path demo_env (system_theme_path demo_env ''acme_corp'')
   \<and> theme_path demo_env ''acme_corp'' None =
       ''/repo/slideagent_mcp/resources/themes/core/acme_corp''
   \<and> truthy (Some ''my/themes'')
   \<and> theme_path demo_env ''acme_corp'' (Some ''my/themes'') = ''my/themes/acme_corp''
   \<and> exists_path demo_env (user_theme_path demo_env ''house'')
   \<and> theme_path demo_env ''house'' None = ''/repo/user_resources/themes/house''
   \<and> \<not> exists_path demo_env (user_theme_path demo_env ''zebra'')
   \<and> \<not> exists_path demo_env (system_theme_path demo_env ''zebra'')
   \<and> theme_path demo_env ''zebra'' None = ''themes/zebra''
   \<and> fst (from_theme demo_env ''acme_corp'' None) =
       Inr ((init demo_env (Some acme_dir))\<lparr>current_style := Some ''acme_corp_style''\<rparr>)
   \<and> style_dir_path ((init demo_env (Some acme_dir))\<lparr>current_style := Some ''acme_corp_style''\<rparr>) =
       ''/repo/slideagent_mcp/resources/themes/core/acme_corp''"
proof -
  have h: "\<not> truthy None
      \<and> \<not> exists_path demo_env (user_theme_path demo_env ''acme_corp'')
      \<and> exists_path demo_env (system_theme_path demo_env ''acme_corp'')"
    by (simp add: demo_user demo_system truthy_def) (simp add: demo_env_def acme_dir_def)
  have t: "truthy (Some ''my/themes'')"
    by (simp add: truthy_def)
  have j: "os_path_join (the (Some ''my/themes'')) ''acme_corp'' = ''my/themes/acme_corp''"
    by (simp add: os_path_join_def startswith_def endswith_def)
  have u: "user_theme_path demo_env ''house'' = ''/repo/user_resources/themes/house''"
    by (simp add: user_theme_path_def path_div_def path_str_def os_path_join_def startswith_def
        endswith_def splitroot_def demo_env_def)
  have hu: "exists_path demo_env (user_theme_path demo_env ''house'')"
    unfolding u by (simp add: demo_env_def)
  have z: "user_theme_path demo_env ''zebra'' = ''/repo/user_resources/themes/zebra''"
      "system_theme_path demo_env ''zebra'' =
         ''/repo/slideagent_mcp/resources/themes/core/zebra''"
    by (simp_all add: user_theme_path_def system_theme_path_def path_div_def path_str_def
        os_path_join_def startswith_def endswith_def splitroot_def demo_env_def)
  have hz: "\<not> exists_path demo_env (user_theme_path demo_env ''zebra'')
      \<and> \<not> exists_path demo_env (system_theme_path demo_env ''zebra'')"
    unfolding z by (simp add: demo_env_def)
  have jz: "os_path_join ''themes'' ''zebra'' = ''themes/zebra''"
    by (simp add: os_path_join_def startswith_def endswith_def)
  have l: "load_style_from_file demo_env (init demo_env (Some acme_dir)) ''acme_corp_style'' =
     (Inr True, (init demo_env (Some acme_dir))\<lparr>current_style := Some ''acme_corp_style''\<rparr>, [])"
    by (simp add: load_style_from_file_def demo_acme_dir demo_acme_path Let_def)
       (simp add: demo_env_def)
  have p: "theme_path demo_env ''acme_corp'' None = acme_dir"
    using h by (simp add: theme_path_def demo_system)
  have f: "fst (from_theme demo_env ''acme_corp'' None) =
       Inr ((init demo_env (Some acme_dir))\<lparr>current_style := Some ''acme_corp_style''\<rparr>)"
    by (simp add: from_theme_def p l)
  from from_theme_directory [of None demo_env "''acme_corp''"]
       from_theme_directory [of "Some ''my/themes''" demo_env "''acme_corp''"]
       from_theme_directory [of None demo_env "''house''"]
       from_theme_directory [of None demo_env "''zebra''"] h t j u hu hz jz f
  show ?thesis
    by (simp add: demo_system acme_dir_def)
qed

subsection \<open>Embedding a logo\<close>

text \<open>
  C8. \<open>add_logo\<close> raises \<open>FileNotFoundError\<close> whenever the logo path is \<open>None\<close> or
  empty, or no file exists at it. The check comes first, so nothing else is looked at,
  and nothing is printed in place of the exception.
\<close>

theorem add_logo_missing_file:
  assumes "\<not> truthy logo_path \<or> \<not> exists_path e (the logo_path)"
  shows "add_logo e fig logo_path position width height margin =
           Inl (FileNotFoundError (''Logo file not found: '' @ py_str logo_path))"
  using assms by (simp add: add_logo_def)

theorem add_logo_missing_file_witness:
  "\<not> exists_path demo_env ''logos/missing.png''
   \<and> add_logo demo_env demo_fig (Some ''logos/missing.png'') ''bottom-right'' 0.12 0.08 0.01 =
       Inl (FileNotFoundError ''Logo file not found: logos/missing.png'')
   \<and> \<not> truthy None
   \<and> add_logo demo_env demo_fig None ''bottom-right'' 0.12 0.08 0.01 =
       Inl (FileNotFoundError ''Logo file not found: None'')"
proof -
  have a: "\<not> exists_path demo_env ''logos/missing.png''"
    by (simp add: demo_env_def)
  then have a': "\<not> truthy (Some ''logos/missing.png'')
      \<or> \<not> exists_path demo_env (the (Some ''logos/missing.png''))"
    by simp
  have b: "\<not> truthy None" by (simp add: truthy_def)
  then have b': "\<not> truthy None \<or> \<not> exists_path demo_env (the None)" by simp
  from add_logo_missing_file [OF a', of demo_fig "''bottom-right''" "0.12" "0.08" "0.01"]
       add_logo_missing_file [OF b', of demo_fig "''bottom-right''" "0.12" "0.08" "0.01"] a b
  show ?thesis by (simp add: py_str_def)
qed

subsection \<open>Position keywords\<close>

lemma logo_keys:
  "map_of (logo_positions w h m) position = None \<longleftrightarrow>
     position \<notin> set [''bottom-right'', ''bottom-left'', ''top-right'', ''top-left'']"
  by (simp add: logo_positions_def)

lemma logo_message:
  "invalid_position position (map fst (logo_positions w h m)) =
     ValueError (''Invalid position: '' @ position @
       ''. Must be one of ['bottom-right', 'bottom-left', 'top-right', 'top-left']'')"
  by (simp add: invalid_position_def logo_positions_def repr_keys_def)

lemma citation_keys:
  "map_of citation_positions position = None \<longleftrightarrow>
     position \<notin> set [''bottom-left'', ''bottom-right'']"
  by (simp add: citation_positions_def)

lemma citation_message:
  "invalid_position position (map fst citation_positions) =
     ValueError (''Invalid position: '' @ position @
       ''. Must be one of ['bottom-left', 'bottom-right']'')"
  by (simp add: invalid_position_def citation_positions_def repr_keys_def)

lemma legend_pos_config_default:
  "position \<notin> set [''bottom'', ''right'', ''top''] \<Longrightarrow>
     legend_pos_config position = legend_pos_config ''bottom''"
  by (simp add: legend_pos_config_def legend_positions_def)

lemma create_legend_default:
  "position \<notin> set [''bottom'', ''right'', ''top''] \<Longrightarrow>
     create_legend e self ax entries ncol position =
       create_legend e self ax entries ncol ''bottom''"
proof -
  assume "position \<notin> set [''bottom'', ''right'', ''top'']"
  then have h: "legend_pos_config position = legend_pos_config ''bottom''"
    by (rule legend_pos_config_default)
  show ?thesis
    unfolding create_legend_def h by (rule refl)
qed

lemma demo_icon_file:
  "truthy (Some (acme_dir @ ''/acme_corp_icon_logo.png''))
   \<and> exists_path demo_env (the (Some (acme_dir @ ''/acme_corp_icon_logo.png'')))
   \<and> imread demo_env (the (Some (acme_dir @ ''/acme_corp_icon_logo.png''))) = None"
  by (simp add: truthy_def acme_dir_def demo_env_def)

text \<open>
  C2 (as amended). For a position outside its accepted set, \<open>add_logo\<close> raises a
  \<open>ValueError\<close> that lists the four accepted corners, once the logo file exists and
  decodes (those checks come first); \<open>add_source_citation\<close> raises a \<open>ValueError\<close> that
  lists its two accepted values when the source text is not empty (an empty source
  returns before the check). \<open>create_legend\<close> has no error for an unknown position: the
  call does, returns and raises exactly what it does for \<open>'bottom'\<close>.
\<close>

theorem invalid_position_handling:
  "(position \<notin> set [''bottom-right'', ''bottom-left'', ''top-right'', ''top-left'']
      \<and> truthy logo_path \<and> exists_path e (the logo_path) \<and> imread e (the logo_path) = None \<longrightarrow>
    add_logo e fig logo_path position width height margin =
      Inl (ValueError (''Invalid position: '' @ position @
             ''. Must be one of ['bottom-right', 'bottom-left', 'top-right', 'top-left']'')))
   \<and> (position \<notin> set [''bottom-left'', ''bottom-right''] \<and> truthy source \<longrightarrow>
    add_source_citation self fig source position fontsize color =
      Inl (ValueError (''Invalid position: '' @ position @
             ''. Must be one of ['bottom-left', 'bottom-right']'')))
   \<and> (position \<notin> set [''bottom'', ''right'', ''top''] \<longrightarrow>
    create_legend e self ax entries ncol position =
      create_legend e self ax entries ncol ''bottom'')"
proof (intro conjI allI impI)
  assume "position \<notin> set [''bottom-right'', ''bottom-left'', ''top-right'', ''top-left'']
      \<and> truthy logo_path \<and> exists_path e (the logo_path) \<and> imread e (the logo_path) = None"
  then show "add_logo e fig logo_path position width height margin =
      Inl (ValueError (''Invalid position: '' @ position @
             ''. Must be one of ['bottom-right', 'bottom-left', 'top-right', 'top-left']''))"
    using logo_keys [of width height margin position]
    by (simp add: add_logo_def Let_def logo_message del: set_simps)
next
  assume "position \<notin> set [''bottom-left'', ''bottom-right''] \<and> truthy source"
  then show "add_source_citation self fig source position fontsize color =
      Inl (ValueError (''Invalid position: '' @ position @
             ''. Must be one of ['bottom-left', 'bottom-right']''))"
    using citation_keys [of position]
    by (simp add: add_source_citation_def Let_def citation_message del: set_simps)
next
  assume "position \<notin> set [''bottom'', ''right'', ''top'']"
  then show "create_legend e self ax entries ncol position =
      create_legend e self ax entries ncol ''bottom''"
    by (rule create_legend_default)
qed

theorem invalid_position_handling_witness:
  "''middle'' \<notin> set [''bottom-right'', ''bottom-left'', ''top-right'', ''top-left'']
   \<and> add_logo demo_env demo_fig (Some (acme_dir @ ''/acme_corp_icon_logo.png'')) ''middle''
        0.12 0.08 0.01 =
      Inl (ValueError
        ''Invalid position: middle. Must be one of ['bottom-right', 'bottom-left', 'top-right', 'top-left']'')
   \<and> ''middle'' \<notin> set [''bottom-left'', ''bottom-right'']
   \<and> truthy (Some ''ACME annual report'')
   \<and> add_source_citation (init demo_env None) demo_fig (Some ''ACME annual report'') ''middle''
        None ''black'' =
      Inl (ValueError ''Invalid position: middle. Must be one of ['bottom-left', 'bottom-right']'')
   \<and> ''middle'' \<notin> set [''bottom'', ''right'', ''top'']
   \<and> create_legend demo_env (init demo_env None) chart_ax None None ''middle'' =
      create_legend demo_env (init demo_env None) chart_ax None None ''bottom''"
proof -
  have m: "''middle'' \<notin> set [''bottom-right'', ''bottom-left'', ''top-right'', ''top-left'']
      \<and> ''middle'' \<notin> set [''bottom-left'', ''bottom-right'']
      \<and> ''middle'' \<notin> set [''bottom'', ''right'', ''top'']
      \<and> truthy (Some ''ACME annual report'')"
    by (simp add: truthy_def)
  from invalid_position_handling
         [where position = "''middle''" and e = demo_env and fig = demo_fig
            and logo_path = "Some (acme_dir @ ''/acme_corp_icon_logo.png'')"
            and width = "0.12" and height = "0.08" and margin = "0.01"
            and self = "init demo_env None" and source = "Some ''ACME annual report''"
            and fontsize = None and color = "''black''"
            and ax = chart_ax and entries = None and ncol = None]
       m demo_icon_file
  show ?thesis by simp
qed

text \<open>
  C2 as stated fails for the legend: \<open>"middle"\<close> is no key of the legend's position
  table, and \<open>create_legend\<close> returns a legend placed as for \<open>'bottom'\<close>.
\<close>

theorem create_legend_middle_counterexample:
  "map_of legend_positions ''middle'' = None
   \<and> create_legend demo_env (init demo_env None) chart_ax (Some [[''Plan'', ''#1f77b4'']]) None
        ''middle'' =
       Inr (Some \<lparr> lg_handles = [Rectangle ''#1f77b4''], lg_labels = [''Plan''], lg_ncol = 1,
                    lg_loc = ''upper center'', lg_bbox_to_anchor = (0.5, -0.15),
                    lg_fontsize = 14 \<rparr>,
            chart_ax\<lparr>ax_legend :=
              Some \<lparr> lg_handles = [Rectangle ''#1f77b4''], lg_labels = [''Plan''], lg_ncol = 1,
                     lg_loc = ''upper center'', lg_bbox_to_anchor = (0.5, -0.15),
                     lg_fontsize = 14 \<rparr>\<rparr>)"
proof -
  have r: "rectangle_raises demo_env ''#1f77b4'' = None"
    by (simp add: demo_env_def)
  have n: "auto_ncol [''Plan''] = 1"
    by (simp add: auto_ncol_def py_len_def)
  show ?thesis
    by (simp add: create_legend_def r n legend_pos_config_def legend_positions_def init_def Let_def)
qed

text \<open>
  A colour that matplotlib does not know makes the manual mode raise, whatever the
  position: the patch is built before the position is looked at.
\<close>

lemma create_legend_bad_colour:
  "create_legend demo_env self ax (Some [[''Plan'', ''notacolor'']]) ncol position =
     Inl (ValueError (''Invalid RGBA argument: '' @ [CHR 0x27] @ ''notacolor'' @ [CHR 0x27]))"
  by (simp add: create_legend_def demo_env_def)

subsection \<open>Legends with nothing to show\<close>

text \<open>
  C9. When the handles or the labels collected from the axes are empty, \<open>create_legend\<close>
  returns \<open>None\<close> and leaves the axes as they are; the same holds for an empty list of
  manual entries. With handles and labels present it returns the legend it attached.
\<close>

theorem create_legend_nothing_to_show:
  "(fst (legend_handles_labels ax) = [] \<or> snd (legend_handles_labels ax) = [] \<longrightarrow>
      create_legend e self ax None ncol position = Inr (None, ax))
   \<and> create_legend e self ax (Some []) ncol position = Inr (None, ax)
   \<and> (fst (legend_handles_labels ax) \<noteq> [] \<and> snd (legend_handles_labels ax) \<noteq> [] \<longrightarrow>
      (\<exists>lg. create_legend e self ax None ncol position =
              Inr (Some lg, ax\<lparr>ax_legend := Some lg\<rparr>)))"
  by (cases "legend_handles_labels ax") (auto simp: create_legend_def Let_def)

theorem create_legend_nothing_to_show_witness:
  "fst (legend_handles_labels bare_ax) = []
   \<and> create_legend demo_env (init demo_env None) bare_ax None None ''bottom'' =
       Inr (None, bare_ax)
   \<and> ax_legend bare_ax = None
   \<and> fst (legend_handles_labels chart_ax) \<noteq> []
   \<and> snd (legend_handles_labels chart_ax) \<noteq> []
   \<and> (\<exists>lg. create_legend demo_env (init demo_env None) chart_ax None None ''bottom'' =
             Inr (Some lg, chart_ax\<lparr>ax_legend := Some lg\<rparr>))"
proof -
  have h: "fst (legend_handles_labels bare_ax) = []"
    by (simp add: bare_ax_def)
  have l: "ax_legend bare_ax = None"
    by (simp add: bare_ax_def chart_ax_def)
  have c: "fst (legend_handles_labels chart_ax) \<noteq> [] \<and> snd (legend_handles_labels chart_ax) \<noteq> []"
    by (simp add: chart_ax_def)
  from create_legend_nothing_to_show
         [where ax = bare_ax and e = demo_env and self = "init demo_env None" and ncol = None
            and position = "''bottom''"]
       create_legend_nothing_to_show
         [where ax = chart_ax and e = demo_env and self = "init demo_env None" and ncol = None
            and position = "''bottom''"] h l c
  show ?thesis by blast
qed

subsection \<open>Resolving the theme of a project\<close>

lemma theme_no_overlap:
  assumes "startswith (c # cs @ ''_theme'') ''_theme''"
  shows "startswith (c # cs) ''_theme''"
proof (cases "5 \<le> length cs")
  case True
  then show ?thesis using assms by (simp add: startswith_def)
next
  case False
  then have "length cs = 0 \<or> length cs = 1 \<or> length cs = 2 \<or> length cs = 3 \<or> length cs = 4"
    by arith
  then show ?thesis
    using assms
    by (elim disjE) (auto simp: startswith_def length_Suc_conv numeral_eq_Suc)
qed

lemma remove_theme_suffix:
  "\<not> str_contains ''_theme'' base \<Longrightarrow> str_remove_all ''_theme'' (base @ ''_theme'') = base"
proof (induction base)
  case Nil
  then show ?case by (simp add: startswith_def)
next
  case (Cons c cs)
  then have a: "\<not> startswith (c # cs) ''_theme''" and b: "\<not> str_contains ''_theme'' cs"
    by simp_all
  from a have "\<not> startswith (c # cs @ ''_theme'') ''_theme''"
    using theme_no_overlap by blast
  then show ?case using Cons.IH [OF b] by simp
qed

lemma stem_css: "name \<noteq> [] \<Longrightarrow> stem (name @ ''.css'') = name"
  by (simp add: stem_def rfind_last [of "CHR ''.''" "''css''" name, simplified] Let_def)

text \<open>
  Where \<open>_theme\<close> occurs in the file name only as the suffix before \<open>.css\<close>, the name
  derived is the stem without it.
\<close>

lemma theme_name_of_file:
  assumes "\<not> str_contains ''_theme'' base"
  shows "str_remove_all ''_theme'' (stem (base @ ''_theme.css'')) = base"
proof -
  have "stem ((base @ ''_theme'') @ ''.css'') = base @ ''_theme''"
    by (rule stem_css) simp
  then show ?thesis using remove_theme_suffix [OF assms] by simp
qed

text \<open>Without a theme folder the default theme is resolved, after a warning.\<close>

lemma from_project_config_fallback:
  assumes "\<not> exists_path e ''theme''" and "\<not> exists_path e ''../theme''"
  shows "from_project_config e =
           (fst (from_theme e ''acme_corp'' None),
            ''Warning: Theme folder not found, using default theme'' #
              snd (from_theme e ''acme_corp'' None))"
  using assms by (simp add: from_project_config_def split: prod.splits)

text \<open>
  C3, at a file name that holds \<open>_theme\<close> twice. The project folder \<open>theme\<close> lists
  \<open>my_theme_park_theme.css\<close>; \<open>str.replace\<close> deletes both occurrences, so the theme
  name derived is \<open>my_park\<close>, not \<open>my_theme_park\<close>, and the style looked for is
  \<open>my_park_style.mplstyle\<close>.
\<close>

theorem from_project_config_interior_theme:
  "glob_theme_css demo_env ''theme'' = [''my_theme_park_theme.css'']
   \<and> stem ''my_theme_park_theme.css'' = ''my_theme_park_theme''
   \<and> detect_theme_name demo_env ''theme'' = Some ''my_park''
   \<and> from_project_config demo_env =
       (Inr (init demo_env (Some ''/work/deck/theme'')),
        [''Warning: Style file not found at /work/deck/theme/my_park_style.mplstyle''])"
proof -
  have g: "glob_theme_css demo_env ''theme'' = [''my_theme_park_theme.css'']"
    by (simp add: glob_theme_css_def demo_env_def endswith_def)
  have s: "stem ''my_theme_park_theme.css'' = ''my_theme_park_theme''"
    by (simp add: stem_def)
  have d: "detect_theme_name demo_env ''theme'' = Some ''my_park''"
    by (simp add: detect_theme_name_def g s startswith_def)
  have x: "exists_path demo_env ''theme''" and r: "resolve demo_env ''theme'' = ''/work/deck/theme''"
    by (simp_all add: demo_env_def)
  have i: "style_dir_path (init demo_env (Some ''/work/deck/theme'')) = ''/work/deck/theme''"
    by (simp add: init_dir)
  have p: "os_path_join ''/work/deck/theme'' ''my_park_style.mplstyle'' =
      ''/work/deck/theme/my_park_style.mplstyle''"
    by (simp add: os_path_join_def startswith_def endswith_def)
  have n: "\<not> exists_path demo_env ''/work/deck/theme/my_park_style.mplstyle''"
    by (simp add: demo_env_def)
  have l: "load_style_from_file demo_env (init demo_env (Some ''/work/deck/theme''))
        ''my_park_style'' =
      (Inr False, init demo_env (Some ''/work/deck/theme''),
       [''Warning: Style file not found at /work/deck/theme/my_park_style.mplstyle''])"
    by (simp add: load_style_from_file_def i p n Let_def)
  have "from_project_config demo_env =
       (Inr (init demo_env (Some ''/work/deck/theme'')),
        [''Warning: Style file not found at /work/deck/theme/my_park_style.mplstyle''])"
    by (simp add: from_project_config_def x d r truthy_def l Let_def)
  with g s d show ?thesis by simp
qed

subsection \<open>Hiding and restoring the branding\<close>

lemma set_visible_lengths [simp]:
  "length (fig_axes (set_visible el v fig)) = length (fig_axes fig)"
  "length (fig_texts (set_visible el v fig)) = length (fig_texts fig)"
  by (cases el; simp)+

lemma valid_set_visible [simp]: "valid (set_visible el' v fig) el = valid fig el"
  by (cases el) simp_all

lemma get_set_other: "el \<noteq> el' \<Longrightarrow> get_visible (set_visible el' v fig) el = get_visible fig el"
  by (cases el; cases el') simp_all

lemma get_set_same: "valid fig el \<Longrightarrow> get_visible (set_visible el v fig) el = v"
  by (cases el) simp_all

lemma to_hide_set_visible [simp]: "to_hide (set_visible el' v fig) el = to_hide fig el"
proof (cases el; cases el')
  fix i j assume "el = AxesRef i" "el' = AxesRef j"
  then show ?thesis
    by (cases "i = j"; cases "j < length (fig_axes fig)")
       (simp_all add: looks_like_logo_def list_update_beyond)
next
  fix i j assume "el = TextRef i" "el' = TextRef j"
  then show ?thesis
    by (cases "i = j"; cases "j < length (fig_texts fig)")
       (simp_all add: mentions_source_def list_update_beyond)
qed simp_all

lemma set_set_same [simp]: "set_visible el v (set_visible el w fig) = set_visible el v fig"
proof (cases el)
  case (AxesRef i)
  then show ?thesis by (cases "i < length (fig_axes fig)") (simp_all add: list_update_beyond)
next
  case (TextRef i)
  then show ?thesis by (cases "i < length (fig_texts fig)") (simp_all add: list_update_beyond)
qed

lemma set_get_id [simp]: "set_visible el (get_visible fig el) fig = fig"
  by (cases el) simp_all

lemma set_visible_commute:
  "el \<noteq> el' \<Longrightarrow>
     set_visible el v (set_visible el' w fig) = set_visible el' w (set_visible el v fig)"
  by (cases el; cases el') (simp_all add: list_update_swap)

lemma hide_all_Nil [simp]: "hide_all [] fig = fig"
  by (simp add: hide_all_def)

lemma hide_all_Cons [simp]: "hide_all (el # els) fig = hide_all els (set_visible el False fig)"
  by (simp add: hide_all_def)

lemma hide_all_snoc [simp]: "hide_all (els @ [el]) fig = set_visible el False (hide_all els fig)"
  by (simp add: hide_all_def)

lemma hide_all_lengths [simp]:
  "length (fig_axes (hide_all els fig)) = length (fig_axes fig)"
  "length (fig_texts (hide_all els fig)) = length (fig_texts fig)"
  by (induction els arbitrary: fig; simp)+

lemma to_hide_hide_all [simp]: "to_hide (hide_all els fig) el = to_hide fig el"
  by (induction els arbitrary: fig) simp_all

lemma valid_hide_all [simp]: "valid (hide_all els fig) el = valid fig el"
  by (cases el) simp_all

lemma get_hide_all_other:
  "el \<notin> set els \<Longrightarrow> get_visible (hide_all els fig) el = get_visible fig el"
  by (induction els arbitrary: fig) (auto simp: get_set_other)

lemma get_hide_all_hidden:
  "el \<in> set els \<Longrightarrow> valid fig el \<Longrightarrow> get_visible (hide_all els fig) el = False"
proof (induction els rule: rev_induct)
  case Nil
  then show ?case by simp
next
  case (snoc x xs)
  show ?case
  proof (cases "el = x")
    case True
    then show ?thesis using snoc.prems by (simp add: get_set_same)
  next
    case False
    then show ?thesis using snoc by (simp add: get_set_other)
  qed
qed

lemma update_fresh: "k \<notin> fst ` set al \<Longrightarrow> AList.update k v al = al @ [(k, v)]"
  by (induction al) auto

lemma hide_steps:
  "distinct els \<Longrightarrow>
     fold hide_step els (fig, []) =
       (hide_all (filter (to_hide fig) els) fig,
        map (\<lambda>el. (el, get_visible fig el)) (filter (to_hide fig) els))"
proof (induction els rule: rev_induct)
  case Nil
  then show ?case by simp
next
  case (snoc x xs)
  then have d: "distinct xs" and n: "x \<notin> set xs" by simp_all
  have k: "x \<notin> fst ` set (map (\<lambda>el. (el, get_visible fig el)) (filter (to_hide fig) xs))"
    using n by (auto simp: image_iff)
  have g: "get_visible (hide_all (filter (to_hide fig) xs) fig) x = get_visible fig x"
    using n by (simp add: get_hide_all_other)
  have "fold hide_step (xs @ [x]) (fig, []) = hide_step x (fold hide_step xs (fig, []))"
    by simp
  also have "\<dots> = hide_step x (hide_all (filter (to_hide fig) xs) fig,
        map (\<lambda>el. (el, get_visible fig el)) (filter (to_hide fig) xs))"
    by (simp only: snoc.IH [OF d])
  also have "\<dots> = (hide_all (filter (to_hide fig) (xs @ [x])) fig,
        map (\<lambda>el. (el, get_visible fig el)) (filter (to_hide fig) (xs @ [x])))"
    by (simp add: hide_step_def g update_fresh [OF k])
  finally show ?case .
qed

lemma set_visible_hide_all:
  "el \<notin> set els \<Longrightarrow> set_visible el v (hide_all els fig) = hide_all els (set_visible el v fig)"
  by (induction els arbitrary: fig) (auto simp: set_visible_commute)

lemma restore_hidden:
  "distinct els \<Longrightarrow>
     restore_states (map (\<lambda>el. (el, g el)) els) (hide_all els fig) =
       fold (\<lambda>el. set_visible el (g el)) els fig"
proof (induction els arbitrary: fig)
  case Nil
  then show ?case by (simp add: restore_states_def)
next
  case (Cons x xs)
  then have d: "distinct xs" and n: "x \<notin> set xs" by simp_all
  have "restore_states (map (\<lambda>el. (el, g el)) (x # xs)) (hide_all (x # xs) fig) =
        restore_states (map (\<lambda>el. (el, g el)) xs)
          (set_visible x (g x) (hide_all xs (set_visible x False fig)))"
    by (simp add: restore_states_def)
  also have "\<dots> = restore_states (map (\<lambda>el. (el, g el)) xs) (hide_all xs (set_visible x (g x) fig))"
    by (simp add: set_visible_hide_all [OF n])
  also have "\<dots> = fold (\<lambda>el. set_visible el (g el)) xs (set_visible x (g x) fig)"
    by (rule Cons.IH [OF d])
  finally show ?case by simp
qed

lemma fold_set_own: "fold (\<lambda>el. set_visible el (get_visible fig el)) els fig = fig"
  by (induction els) simp_all

lemma distinct_elements:
  "distinct (map AxesRef [0..<m] @ map TextRef [0..<n])"
  by (auto simp: distinct_map inj_on_def)

lemma hide_branding_eq:
  "hide_branding fig =
     (hide_all (branding fig) fig, map (\<lambda>el. (el, get_visible fig el)) (branding fig))"
proof -
  let ?A = "map AxesRef [0..<length (fig_axes fig)]"
  let ?T = "map TextRef [0..<length (fig_texts fig)]"
  have "hide_branding fig = fold hide_step (?A @ ?T) (fig, [])"
    by (simp add: hide_branding_def)
  also have "\<dots> = (hide_all (filter (to_hide fig) (?A @ ?T)) fig,
        map (\<lambda>el. (el, get_visible fig el)) (filter (to_hide fig) (?A @ ?T)))"
    by (rule hide_steps [OF distinct_elements])
  finally show ?thesis by (simp only: branding_def)
qed

lemma restore_hide_branding:
  "restore_states (snd (hide_branding fig)) (fst (hide_branding fig)) = fig"
proof -
  have "distinct (branding fig)"
    unfolding branding_def by (rule distinct_filter [OF distinct_elements])
  then show ?thesis
    by (simp add: hide_branding_eq restore_hidden fold_set_own)
qed

lemma lower_S: "lower_char CHR ''S'' = CHR ''s''"
  by code_simp

lemma lower_keep:
  "lower_char CHR ''o'' = CHR ''o''" "lower_char CHR ''u'' = CHR ''u''"
  "lower_char CHR ''r'' = CHR ''r''" "lower_char CHR ''c'' = CHR ''c''"
  "lower_char CHR ''e'' = CHR ''e''" "lower_char CHR '':'' = CHR '':''"
  by (simp_all add: lower_char_def)

lemma lower_Source: "str_lower (''Source:'' @ rest) = ''source:'' @ str_lower rest"
  by (simp add: str_lower_def lower_S lower_keep)

lemma str_contains_prefix: "sub \<noteq> [] \<Longrightarrow> str_contains sub (sub @ rest)"
  by (cases sub) (simp_all add: startswith_def)

lemma source_prefix_hidden:
  assumes "startswith s ''Source:''"
  shows "str_contains ''source:'' (str_lower s)"
proof -
  let ?r = "drop (length ''Source:'') s"
  from assms have t: "take (length ''Source:'') s = ''Source:''"
    unfolding startswith_def .
  have "take (length ''Source:'') s @ ?r = s"
    by (rule append_take_drop_id)
  then have s: "''Source:'' @ ?r = s"
    unfolding t .
  have "str_contains ''source:'' (str_lower (''Source:'' @ ?r))"
    unfolding lower_Source by (rule str_contains_prefix) simp
  then show ?thesis unfolding s .
qed

lemma lower_literals:
  "str_lower ''Source: ACME annual report'' = ''source: acme annual report''"
  "str_lower ''Preliminary figures'' = ''preliminary figures''"
  "str_lower ''Draft, data source: internal'' = ''draft, data source: internal''"
  by (simp_all add: str_lower_def lower_char_def char_of_def bit_0)

lemma demo_marks:
  "\<not> looks_like_logo chart_ax" "looks_like_logo inset_ax"
  "mentions_source (caption ''Source: ACME annual report'' True)"
  "\<not> mentions_source (caption ''Preliminary figures'' True)"
  "mentions_source (caption ''Draft, data source: internal'' False)"
  by (simp_all add: chart_ax_def inset_ax_def caption_def looks_like_logo_def
      mentions_source_def lower_literals startswith_def)

lemma demo_branding: "branding demo_fig = [AxesRef 1, TextRef 0, TextRef 2]"
proof -
  have l: "length (fig_axes demo_fig) = 2" "length (fig_texts demo_fig) = 3"
    by (simp_all add: demo_fig_def)
  have u: "[0..<2] = [0, 1]" "[0..<3] = [0, 1, 2]"
    by (simp_all add: upt_rec)
  show ?thesis
    by (simp add: branding_def l u) (simp add: demo_fig_def demo_marks)
qed

lemma demo_hide:
  "hide_branding demo_fig =
     (demo_clean_fig, [(AxesRef 1, True), (TextRef 0, True), (TextRef 2, False)])"
  by (simp add: hide_branding_eq demo_branding)
     (simp add: demo_fig_def demo_clean_fig_def caption_def inset_ax_def chart_ax_def)

lemma splitext_name_ext:
  assumes "CHR ''.'' \<notin> set x" and "CHR ''/'' \<notin> set x"
    and "\<exists>c\<in>set (basename name). c \<noteq> CHR ''.''"
  shows "splitext (name @ ''.'' @ x) = (name, ''.'' @ x)"
proof -
  let ?p = "name @ CHR ''.'' # x"
  let ?s = "rfind CHR ''/'' name"
  have dot: "rfind CHR ''.'' ?p = int (length name)"
    using assms(1) by (rule rfind_last)
  have "CHR ''/'' \<notin> set (CHR ''.'' # x)"
    using assms(2) by simp
  then have sep: "rfind CHR ''/'' ?p = ?s"
    by (rule rfind_append_notin)
  have lt: "?s < int (length name)" by (rule rfind_lt)
  have ge: "- 1 \<le> ?s" by (rule rfind_ge)
  have k: "nat (?s + 1) \<le> length name"
    using lt ge by linarith
  have n: "nat (int (length name) - (?s + 1)) = length name - nat (?s + 1)"
    using ge by linarith
  have seg: "take (nat (int (length name) - (?s + 1))) (drop (nat (?s + 1)) ?p) = basename name"
    unfolding n using k by (simp add: basename_def)
  have ex: "list_ex (\<lambda>c. c \<noteq> CHR ''.'') (basename name)"
    using assms(3) by (simp add: list_ex_iff)
  have "splitext ?p = (take (nat (int (length name))) ?p, drop (nat (int (length name))) ?p)"
    unfolding splitext_def Let_def dot sep seg using lt ex by simp
  then show ?thesis by simp
qed

lemma demo_chart_path: "splitext ''out/chart.v2.png'' = (''out/chart.v2'', ''.png'')"
  by (simp add: splitext_def)

lemma branding_texts:
  "TextRef i \<in> set (branding fig) \<longleftrightarrow>
     i < length (fig_texts fig) \<and> mentions_source (fig_texts fig ! i)"
  by (auto simp: branding_def)

lemma branding_axes:
  "AxesRef i \<in> set (branding fig) \<longleftrightarrow>
     i < length (fig_axes fig) \<and> looks_like_logo (fig_axes fig ! i)"
  by (auto simp: branding_def)

lemma get_text_set_visible [simp]:
  "get_text (fig_texts (set_visible el v fig) ! i) = get_text (fig_texts fig ! i)"
proof (cases el)
  case (AxesRef j)
  then show ?thesis by simp
next
  case (TextRef j)
  then show ?thesis
    by (cases "i = j"; cases "j < length (fig_texts fig)") (simp_all add: list_update_beyond)
qed

lemma get_text_hide_all [simp]:
  "get_text (fig_texts (hide_all els fig) ! i) = get_text (fig_texts fig ! i)"
  by (induction els arbitrary: fig) simp_all

lemma clean_figure:
  fixes fig :: figure
  defines "clean \<equiv> fst (hide_branding fig)"
  shows "length (fig_texts clean) = length (fig_texts fig)"
    and "length (fig_axes clean) = length (fig_axes fig)"
    and "get_text (fig_texts clean ! i) = get_text (fig_texts fig ! i)"
    and "i < length (fig_texts fig) \<Longrightarrow> mentions_source (fig_texts fig ! i) \<Longrightarrow>
           \<not> txt_visible (fig_texts clean ! i)"
    and "\<not> mentions_source (fig_texts fig ! i) \<Longrightarrow>
           txt_visible (fig_texts clean ! i) = txt_visible (fig_texts fig ! i)"
    and "i < length (fig_axes fig) \<Longrightarrow> looks_like_logo (fig_axes fig ! i) \<Longrightarrow>
           \<not> ax_visible (fig_axes clean ! i)"
    and "\<not> looks_like_logo (fig_axes fig ! i) \<Longrightarrow>
           ax_visible (fig_axes clean ! i) = ax_visible (fig_axes fig ! i)"
proof -
  show "length (fig_texts clean) = length (fig_texts fig)"
    and "length (fig_axes clean) = length (fig_axes fig)"
    and "get_text (fig_texts clean ! i) = get_text (fig_texts fig ! i)"
    by (simp_all add: clean_def hide_branding_eq)
  show "\<not> txt_visible (fig_texts clean ! i)"
    if "i < length (fig_texts fig)" "mentions_source (fig_texts fig ! i)"
    using get_hide_all_hidden [of "TextRef i" "branding fig" fig] that
    by (simp add: clean_def hide_branding_eq branding_texts)
  show "txt_visible (fig_texts clean ! i) = txt_visible (fig_texts fig ! i)"
    if "\<not> mentions_source (fig_texts fig ! i)"
    using get_hide_all_other [of "TextRef i" "branding fig" fig] that
    by (simp add: clean_def hide_branding_eq branding_texts)
  show "\<not> ax_visible (fig_axes clean ! i)"
    if "i < length (fig_axes fig)" "looks_like_logo (fig_axes fig ! i)"
    using get_hide_all_hidden [of "AxesRef i" "branding fig" fig] that
    by (simp add: clean_def hide_branding_eq branding_axes)
  show "ax_visible (fig_axes clean ! i) = ax_visible (fig_axes fig ! i)"
    if "\<not> looks_like_logo (fig_axes fig ! i)"
    using get_hide_all_other [of "AxesRef i" "branding fig" fig] that
    by (simp add: clean_def hide_branding_eq branding_axes)
qed

lemma save_clean_version_ok:
  "savefig_raises e filepath (fst (hide_branding fig)) = None \<Longrightarrow>
     save_clean_version e fig filepath written =
       (Inr (), fig, written @ [(written_file e filepath, fst (hide_branding fig))])"
  using restore_hide_branding [of fig]
  by (cases "hide_branding fig") (simp add: save_clean_version_def fig_savefig_def)

lemma save_clean_version_raises:
  "savefig_raises e filepath (fst (hide_branding fig)) = Some x \<Longrightarrow>
     save_clean_version e fig filepath written = (Inl x, fst (hide_branding fig), written)"
  by (cases "hide_branding fig") (simp add: save_clean_version_def fig_savefig_def)

lemma save_clean_version_cases:
  "save_clean_version e fig filepath written =
     (case savefig_raises e filepath (fst (hide_branding fig)) of
        None \<Rightarrow> (Inr (), fig, written @ [(written_file e filepath, fst (hide_branding fig))])
      | Some x \<Rightarrow> (Inl x, fst (hide_branding fig), written))"
  by (cases "savefig_raises e filepath (fst (hide_branding fig))")
     (simp_all add: save_clean_version_ok save_clean_version_raises)

lemma save_returns_figure:
  "save e filepath branded fig written = (Inr r, fig', written') \<Longrightarrow> fig' = fig"
  by (cases "splitext filepath")
     (auto simp: save_def fig_savefig_def save_clean_version_cases Let_def
           split: option.splits if_splits)

subsection \<open>Saving the branded and the clean chart\<close>

text \<open>
  When both \<open>savefig\<close> calls return, \<open>save\<close> with \<open>branded=True\<close> writes two files, the
  branded one from the figure as it is and the clean one from the figure with its
  branding hidden, and returns the two paths it built.
\<close>

lemma save_branded_files:
  assumes "splitext filepath = (base, ext)"
    and "savefig_raises e (base @ ''_branded'' @ ext) fig = None"
    and "savefig_raises e (base @ ''_clean'' @ ext) (fst (hide_branding fig)) = None"
  shows "save e filepath True fig written =
           (Inr (BrandedClean (base @ ''_branded'' @ ext) (base @ ''_clean'' @ ext)), fig,
            written @ [(written_file e (base @ ''_branded'' @ ext), fig),
                       (written_file e (base @ ''_clean'' @ ext), fst (hide_branding fig))])"
  using assms(2,3)
  by (simp add: save_def assms(1) fig_savefig_def save_clean_version_ok Let_def)

lemma basename_append:
  "CHR ''/'' \<notin> set tag \<Longrightarrow> basename (name @ tag) = basename name @ tag"
proof -
  assume t: "CHR ''/'' \<notin> set tag"
  have "nat (rfind CHR ''/'' name + 1) \<le> length name"
    using rfind_lt [of "CHR ''/''" name] rfind_ge [of "CHR ''/''" name] by linarith
  then show ?thesis
    by (simp add: basename_def rfind_append_notin [OF t])
qed

lemma written_file_name_ext:
  assumes "x \<noteq> []" and "CHR ''.'' \<notin> set x" and "CHR ''/'' \<notin> set x"
    and "\<exists>c\<in>set (basename name). c \<noteq> CHR ''.''"
  shows "written_file e (name @ ''.'' @ x) = name @ ''.'' @ x"
proof -
  have s: "splitext (name @ CHR ''.'' # x) = (name, CHR ''.'' # x)"
    using splitext_name_ext [OF assms(2,3,4)] by simp
  show ?thesis
    using assms(1) by (simp add: written_file_def s)
qed

text \<open>
  For a path \<open>name.ext\<close> with an extension and a file name that is not all dots, the two
  files are \<open>name_branded.ext\<close> and \<open>name_clean.ext\<close>.
\<close>

lemma save_branded_name_ext:
  assumes "filepath = name @ ''.'' @ x"
    and "x \<noteq> []" and "CHR ''.'' \<notin> set x" and "CHR ''/'' \<notin> set x"
    and "\<exists>c\<in>set (basename name). c \<noteq> CHR ''.''"
    and "savefig_raises e (name @ ''_branded.'' @ x) fig = None"
    and "savefig_raises e (name @ ''_clean.'' @ x) (fst (hide_branding fig)) = None"
  shows "save e filepath True fig written =
           (Inr (BrandedClean (name @ ''_branded.'' @ x) (name @ ''_clean.'' @ x)), fig,
            written @ [(name @ ''_branded.'' @ x, fig),
                       (name @ ''_clean.'' @ x, fst (hide_branding fig))])"
proof -
  have s: "splitext filepath = (name, ''.'' @ x)"
    unfolding assms(1) by (rule splitext_name_ext [OF assms(3,4,5)])
  have b: "\<exists>c\<in>set (basename (name @ ''_branded'')). c \<noteq> CHR ''.''"
    by (simp add: basename_append)
  have c: "\<exists>c\<in>set (basename (name @ ''_clean'')). c \<noteq> CHR ''.''"
    by (simp add: basename_append)
  have wb: "written_file e (name @ ''_branded.'' @ x) = name @ ''_branded.'' @ x"
    using written_file_name_ext [OF assms(2,3,4) b, of e] by simp
  have wc: "written_file e (name @ ''_clean.'' @ x) = name @ ''_clean.'' @ x"
    using written_file_name_ext [OF assms(2,3,4) c, of e] by simp
  have "save e filepath True fig written =
           (Inr (BrandedClean (name @ ''_branded'' @ ''.'' @ x) (name @ ''_clean'' @ ''.'' @ x)),
            fig,
            written @ [(written_file e (name @ ''_branded'' @ ''.'' @ x), fig),
                       (written_file e (name @ ''_clean'' @ ''.'' @ x), fst (hide_branding fig))])"
    using assms(6,7) by (intro save_branded_files [OF s]) simp_all
  then show ?thesis using wb wc by simp
qed

text \<open>
  In the figure the clean file is rendered from, every figure text that starts with
  \<open>Source:\<close> is invisible, and so is every axes that passes the test of the first loop;
  the texts themselves are unchanged.
\<close>

lemma clean_hides_sources:
  assumes "i < length (fig_texts fig)"
    and "startswith (get_text (fig_texts fig ! i)) ''Source:''"
  shows "\<not> txt_visible (fig_texts (fst (hide_branding fig)) ! i)"
  using assms by (intro clean_figure(4)) (simp_all add: mentions_source_def source_prefix_hidden)

lemma add_logo_result:
  assumes "add_logo e fig logo_path position width height margin = Inr fig'"
  shows "\<exists>rect. fig' = fig\<lparr>fig_axes := fig_axes fig @ [logo_axes e (the logo_path) rect]\<rparr>"
  using assms
  by (auto simp: add_logo_def Let_def split: if_splits option.splits)

lemma demo_add_logo:
  "add_logo demo_env chart_fig (Some (acme_dir @ ''/acme_corp_icon_logo.png''))
     ''bottom-right'' 0.12 0.08 0.01 = Inr logo_fig"
proof -
  have "map_of (logo_positions 0.12 0.08 0.01) ''bottom-right'' = Some (1 - 0.12 - 0.01, 0.01)"
    by (simp add: logo_positions_def)
  moreover have "logo_axes demo_env p rect = logo_ax" for p rect
    by (simp add: demo_env_def)
  ultimately show ?thesis
    using demo_icon_file
    by (simp add: add_logo_def Let_def logo_fig_def chart_fig_def)
qed

lemma demo_logo_marks:
  "\<not> looks_like_logo logo_ax" "ax_visible logo_ax"
  "xticks (logo_axes demo_env p rect) \<noteq> []"
  by (simp_all add: logo_ax_def looks_like_logo_def demo_env_def)

lemma demo_logo_branding: "branding logo_fig = [TextRef 0]"
proof -
  have l: "length (fig_axes logo_fig) = 2" "length (fig_texts logo_fig) = 1"
    by (simp_all add: logo_fig_def chart_fig_def)
  have u: "[0..<2] = [0, 1]" "[0..<1] = [0]"
    by (simp_all add: upt_rec)
  show ?thesis
    by (simp add: branding_def l u) (simp add: logo_fig_def chart_fig_def demo_marks demo_logo_marks)
qed

lemma demo_logo_hide: "hide_branding logo_fig = (logo_clean_fig, [(TextRef 0, True)])"
  by (simp add: hide_branding_eq demo_logo_branding)
     (simp add: logo_fig_def chart_fig_def logo_clean_fig_def caption_def)

text \<open>
  C7, at a figure with a logo. The axes that \<open>add_logo\<close> adds show an image, and
  matplotlib reports the tick positions of such axes also after \<open>axis('off')\<close>. The test
  of the first loop of \<open>_save_clean_version\<close> asks for axes without ticks, so it does not
  select them: the logo axes are as visible in the figure the clean file is rendered
  from as they are in the branded one. The two files are written and the source
  citation is hidden, as the lemmas above state; the logo inset is not hidden.
\<close>

theorem save_clean_keeps_logo:
  assumes "add_logo e fig logo_path position width height margin = Inr fig'"
    and "\<forall>rect. xticks (logo_axes e (the logo_path) rect) \<noteq> []"
    and "splitext filepath = (base, ext)"
    and "savefig_raises e (base @ ''_branded'' @ ext) fig' = None"
    and "savefig_raises e (base @ ''_clean'' @ ext) (fst (hide_branding fig')) = None"
  shows "length (fig_axes fig') = Suc (length (fig_axes fig))
       \<and> (\<exists>rect. fig_axes fig' ! length (fig_axes fig) = logo_axes e (the logo_path) rect)
       \<and> ax_visible (fig_axes (fst (hide_branding fig')) ! length (fig_axes fig)) =
           ax_visible (fig_axes fig' ! length (fig_axes fig))
       \<and> save e filepath True fig' written =
           (Inr (BrandedClean (base @ ''_branded'' @ ext) (base @ ''_clean'' @ ext)), fig',
            written @ [(written_file e (base @ ''_branded'' @ ext), fig'),
                       (written_file e (base @ ''_clean'' @ ext), fst (hide_branding fig'))])"
proof -
  obtain rect where f: "fig' = fig\<lparr>fig_axes := fig_axes fig @ [logo_axes e (the logo_path) rect]\<rparr>"
    using add_logo_result [OF assms(1)] by blast
  have n: "fig_axes fig' ! length (fig_axes fig) = logo_axes e (the logo_path) rect"
    by (simp add: f)
  have "xticks (logo_axes e (the logo_path) rect) \<noteq> []"
    using assms(2) by blast
  then have "\<not> looks_like_logo (fig_axes fig' ! length (fig_axes fig))"
    by (simp add: n looks_like_logo_def)
  then have v: "ax_visible (fig_axes (fst (hide_branding fig')) ! length (fig_axes fig)) =
           ax_visible (fig_axes fig' ! length (fig_axes fig))"
    by (rule clean_figure(7))
  have l: "length (fig_axes fig') = Suc (length (fig_axes fig))"
    by (simp add: f)
  from l n v save_branded_files [OF assms(3,4,5)] show ?thesis by blast
qed

theorem save_clean_keeps_logo_witness:
  "add_logo demo_env chart_fig (Some (acme_dir @ ''/acme_corp_icon_logo.png''))
     ''bottom-right'' 0.12 0.08 0.01 = Inr logo_fig
   \<and> length (fig_axes chart_fig) = 1
   \<and> fig_axes logo_fig ! 1 = logo_ax
   \<and> ax_visible logo_ax
   \<and> splitext ''out/chart.png'' = (''out/chart'', ''.png'')
   \<and> save demo_env ''out/chart.png'' True logo_fig [] =
       (Inr (BrandedClean ''out/chart_branded.png'' ''out/chart_clean.png''), logo_fig,
        [(''out/chart_branded.png'', logo_fig), (''out/chart_clean.png'', logo_clean_fig)])
   \<and> ax_visible (fig_axes logo_clean_fig ! 1)
   \<and> \<not> txt_visible (fig_texts logo_clean_fig ! 0)"
proof -
  have t: "\<forall>rect. xticks (logo_axes demo_env
      (the (Some (acme_dir @ ''/acme_corp_icon_logo.png''))) rect) \<noteq> []"
    by (simp add: demo_logo_marks)
  have p: "splitext ''out/chart.png'' = (''out/chart'', ''.png'')"
    by (simp add: splitext_def)
  have b: "savefig_raises demo_env (''out/chart'' @ ''_branded'' @ ''.png'') logo_fig = None"
    by (simp add: demo_env_def)
  have k: "savefig_raises demo_env (''out/chart'' @ ''_clean'' @ ''.png'')
      (fst (hide_branding logo_fig)) = None"
    by (simp add: demo_env_def)
  have c: "fst (hide_branding logo_fig) = logo_clean_fig"
    by (simp add: demo_logo_hide)
  have w: "written_file demo_env ''out/chart_branded.png'' = ''out/chart_branded.png''"
      "written_file demo_env ''out/chart_clean.png'' = ''out/chart_clean.png''"
    by (simp_all add: written_file_def splitext_def)
  have l: "length (fig_axes chart_fig) = 1" "fig_axes logo_fig ! 1 = logo_ax"
    by (simp_all add: chart_fig_def logo_fig_def)
  have h: "\<not> txt_visible (fig_texts logo_clean_fig ! 0)"
    by (simp add: logo_clean_fig_def caption_def)
  note r = save_clean_keeps_logo [OF demo_add_logo t p b k, of "[]"]
  from r have v: "ax_visible (fig_axes (fst (hide_branding logo_fig)) ! length (fig_axes chart_fig)) =
      ax_visible (fig_axes logo_fig ! length (fig_axes chart_fig))"
    by blast
  have s: "save demo_env ''out/chart.png'' True logo_fig [] =
       (Inr (BrandedClean ''out/chart_branded.png'' ''out/chart_clean.png''), logo_fig,
        [(''out/chart_branded.png'', logo_fig), (''out/chart_clean.png'', logo_clean_fig)])"
    using r [THEN conjunct2, THEN conjunct2, THEN conjunct2] by (simp add: c w)
  from v have a: "ax_visible (fig_axes logo_clean_fig ! 1)"
    by (simp add: c l(1)) (simp add: logo_fig_def chart_fig_def demo_logo_marks)
  from demo_add_logo l demo_logo_marks(2) p s a h show ?thesis by blast
qed

text \<open>
  C10. When \<open>savefig\<close> returns, \<open>_save_clean_version\<close> leaves the figure exactly as it
  found it: every element it hid has its visibility from before the call, and nothing
  else was touched; so a \<open>save\<close> that returns leaves the figure unchanged. When
  \<open>savefig\<close> raises, the exception leaves the method before the restoring loop and the
  figure stays as it was hidden.
\<close>

theorem save_clean_version_restores:
  "(savefig_raises e filepath (fst (hide_branding fig)) = None \<longrightarrow>
      save_clean_version e fig filepath written =
        (Inr (), fig, written @ [(written_file e filepath, fst (hide_branding fig))]))
   \<and> (\<forall>x. savefig_raises e filepath (fst (hide_branding fig)) = Some x \<longrightarrow>
      save_clean_version e fig filepath written = (Inl x, fst (hide_branding fig), written))
   \<and> restore_states (snd (hide_branding fig)) (fst (hide_branding fig)) = fig
   \<and> (\<forall>r fig' written'. save e path branded fig written = (Inr r, fig', written') \<longrightarrow> fig' = fig)"
  by (intro conjI allI impI)
     (simp_all add: save_clean_version_ok save_clean_version_raises restore_hide_branding
        save_returns_figure)

theorem save_clean_version_restores_witness:
  "savefig_raises demo_env ''out/chart_clean.png'' (fst (hide_branding demo_fig)) = None
   \<and> save_clean_version demo_env demo_fig ''out/chart_clean.png'' [] =
       (Inr (), demo_fig, [(''out/chart_clean.png'', demo_clean_fig)])
   \<and> savefig_raises demo_env ''/readonly/chart_clean.png'' (fst (hide_branding demo_fig)) =
       Some (Exception ''Permission denied'')
   \<and> save_clean_version demo_env demo_fig ''/readonly/chart_clean.png'' [] =
       (Inl (Exception ''Permission denied''), demo_clean_fig, [])
   \<and> demo_clean_fig \<noteq> demo_fig
   \<and> restore_states [(AxesRef 1, True), (TextRef 0, True), (TextRef 2, False)] demo_clean_fig =
       demo_fig
   \<and> save demo_env ''out/chart.png'' False demo_fig [] =
       (Inr (Clean ''out/chart_clean.png''), demo_fig, [(''out/chart_clean.png'', demo_clean_fig)])"
proof -
  have ok: "savefig_raises demo_env ''out/chart_clean.png'' (fst (hide_branding demo_fig)) = None"
    by (simp add: demo_env_def)
  have no: "savefig_raises demo_env ''/readonly/chart_clean.png'' (fst (hide_branding demo_fig)) =
      Some (Exception ''Permission denied'')"
    by (simp add: demo_env_def)
  have d: "demo_clean_fig \<noteq> demo_fig"
    by (simp add: demo_clean_fig_def demo_fig_def caption_def)
  have p: "splitext ''out/chart.png'' = (''out/chart'', ''.png'')"
    by (simp add: splitext_def)
  have w: "written_file demo_env ''out/chart_clean.png'' = ''out/chart_clean.png''"
    by (simp add: written_file_def splitext_def)
  have s: "save demo_env ''out/chart.png'' False demo_fig [] =
       (Inr (Clean ''out/chart_clean.png''), demo_fig, [(''out/chart_clean.png'', demo_clean_fig)])"
    using ok by (simp add: save_def p save_clean_version_ok demo_hide Let_def w)
  from save_clean_version_restores
         [where e = demo_env and fig = demo_fig and filepath = "''out/chart_clean.png''"
            and written = "[]" and path = "''out/chart.png''" and branded = False]
       save_clean_version_restores
         [where e = demo_env and fig = demo_fig and filepath = "''/readonly/chart_clean.png''"
            and written = "[]"]
       ok no d s
  show ?thesis by (simp add: demo_hide w)
qed

text \<open>A name without extension is written with the default format appended.\<close>

lemma written_file_without_extension:
  "written_file demo_env ''out/chart_clean'' = ''out/chart_clean.png''"
  by (simp add: written_file_def splitext_def rstrip_dots_def demo_env_def)

end
